theory Spec2Isabelle
  imports Complex_Main "HOL-Library.Monad_Syntax"
begin

section \<open>Bloodly: the blood-donation bot of \<^verbatim>\<open>src/blood_donation_bot.py\<close>\<close>

text \<open>
  A shallow embedding of the conversation handlers, the location resolver and the donor
  matcher. Conventions of the embedding:
  \<^item> a Python \<^verbatim>\<open>str\<close> is a \<^typ>\<open>string\<close>, one character per code point, so the texts
    covered are those whose code points are below 256 (the degree sign is \<open>0xB0\<close>);
  \<^item> a Python \<^verbatim>\<open>float\<close> and a \<^verbatim>\<open>REAL\<close> column are idealised as \<^typ>\<open>real\<close>: rounding,
    overflow and NaN are not modelled, and no statement below depends on them;
  \<^item> an exception is a value of type \<open>exn\<close>; a function that may raise returns
    \<open>exn + 'a\<close> with \<open>Inl\<close> the exception;
  \<^item> the donor store, the geocoder and the chat transport are the environment: whether a
    store call fails and what the geocoder answers are fields of \<open>env\<close>, chosen freely for
    every update; answering a callback query and sending a reply never fail;
  \<^item> the libraries are modelled where the program's behaviour rests on them: the dispatch
    of \<^verbatim>\<open>ConversationHandler\<close> and its filters, the argument encoding of \<^verbatim>\<open>asyncpg\<close>, the
    matching of \<^verbatim>\<open>re\<close> and the parsing of \<^verbatim>\<open>strptime\<close>.
\<close>

subsection \<open>Exceptions and Python values\<close>

datatype exn =
    KeyError string
  | ValueError
  | IndexError
  | TypeError
  | AttributeError
  | StoreError
  | DataError

text \<open>The values the program keeps in \<^verbatim>\<open>context.user_data\<close> or passes to the store.\<close>

type_synonym date = "nat \<times> nat \<times> nat"

datatype pyval = PyNone | PyStr string | PyFloat real | PyDate date

subsection \<open>Characters and the string methods the program calls\<close>

definition deg :: char where "deg = CHR 0xB0"
definition apos :: char where "apos = CHR 0x27"
definition dquote :: char where "dquote = CHR 0x22"

definition is_digit :: "char \<Rightarrow> bool" where
  "is_digit c = (c \<in> set ''0123456789'')"

definition is_digit_or_dot :: "char \<Rightarrow> bool" where
  "is_digit_or_dot c = (is_digit c \<or> c = CHR ''.'')"

text \<open>\<^verbatim>\<open>\s\<close> of a \<^verbatim>\<open>str\<close> pattern: the Unicode white space below code point 256.\<close>

definition is_space :: "char \<Rightarrow> bool" where
  "is_space c = (of_char c \<in> set [9, 10, 11, 12, 13, 28, 29, 30, 31, 32, 133, 160 :: nat])"

definition digit_val :: "char \<Rightarrow> nat" where
  "digit_val c = of_char c - 48"

definition nat_of_digits :: "string \<Rightarrow> nat" where
  "nat_of_digits s = foldl (\<lambda>n c. 10 * n + digit_val c) 0 s"

text \<open>
  \<^verbatim>\<open>float(s)\<close>, on the strings the program passes to it: the groups of its regular
  expressions, which hold digits, dots and at most a leading minus sign. Such a string
  is a float literal when it is \<^verbatim>\<open>-?(\d+\.?\d*|\.\d+)\<close>; otherwise \<^verbatim>\<open>float\<close> raises
  \<^verbatim>\<open>ValueError\<close> (\<^verbatim>\<open>float('.')\<close>, \<^verbatim>\<open>float('1.2.3')\<close>).
\<close>

definition py_float_unsigned :: "string \<Rightarrow> exn + real" where
  "py_float_unsigned u =
     (let ip = takeWhile is_digit u in
      case dropWhile is_digit u of
        [] \<Rightarrow> if ip = [] then Inl ValueError else Inr (real (nat_of_digits ip))
      | c # fp \<Rightarrow>
          if c = CHR ''.'' \<and> list_all is_digit fp \<and> \<not> (ip = [] \<and> fp = [])
          then Inr (real (nat_of_digits ip) + real (nat_of_digits fp) / 10 ^ length fp)
          else Inl ValueError)"

definition py_float :: "string \<Rightarrow> exn + real" where
  "py_float s =
     (case s of
        [] \<Rightarrow> Inl ValueError
      | c # r \<Rightarrow>
          if c = CHR ''-''
          then (case py_float_unsigned r of Inl e \<Rightarrow> Inl e | Inr x \<Rightarrow> Inr (- x))
          else py_float_unsigned s)"

text \<open>\<^verbatim>\<open>str.lower()\<close> on code points below 256: A-Z and the Latin-1 capitals.\<close>

definition lower_char :: "char \<Rightarrow> char" where
  "lower_char c =
     (let n = (of_char c :: nat) in
      if (65 \<le> n \<and> n \<le> 90) \<or> (192 \<le> n \<and> n \<le> 222 \<and> n \<noteq> 215)
      then char_of (n + 32) else c)"

definition py_lower :: "string \<Rightarrow> string" where
  "py_lower s = map lower_char s"

text \<open>\<^verbatim>\<open>s.split(sep)\<close> for a one-character separator: never the empty list.\<close>

fun py_split :: "char \<Rightarrow> string \<Rightarrow> string list" where
  "py_split sep [] = [[]]"
| "py_split sep (c # cs) =
     (if c = sep then [] # py_split sep cs
      else (case py_split sep cs of
              [] \<Rightarrow> [[c]]
            | p # ps \<Rightarrow> (c # p) # ps))"

text \<open>\<^verbatim>\<open>xs[1]\<close>: the second element, \<^verbatim>\<open>IndexError\<close> when there is none.\<close>

definition index1 :: "'a list \<Rightarrow> exn + 'a" where
  "index1 xs = (case xs of _ # x # _ \<Rightarrow> Inr x | _ \<Rightarrow> Inl IndexError)"

subsection \<open>Regular expressions, matched as \<^verbatim>\<open>re\<close> matches them\<close>

text \<open>
  Every repetition in the program's patterns is followed by a character outside the
  repeated class (or by the end of the pattern), so the greedy match is the only one
  backtracking could find: \<open>re_plus\<close> takes the longest run.
\<close>

definition re_plus :: "(char \<Rightarrow> bool) \<Rightarrow> string \<Rightarrow> (string \<times> string) option" where
  "re_plus p s =
     (let g = takeWhile p s in if g = [] then None else Some (g, dropWhile p s))"

definition re_char :: "char \<Rightarrow> string \<Rightarrow> string option" where
  "re_char c s = (case s of [] \<Rightarrow> None | x # r \<Rightarrow> if x = c then Some r else None)"

definition re_class :: "string \<Rightarrow> string \<Rightarrow> (char \<times> string) option" where
  "re_class cs s = (case s of [] \<Rightarrow> None | x # r \<Rightarrow> if x \<in> set cs then Some (x, r) else None)"

definition re_lit :: "string \<Rightarrow> string \<Rightarrow> string option" where
  "re_lit l s = (if take (length l) s = l then Some (drop (length l) s) else None)"

text \<open>
  Line 52, with \<^verbatim>\<open>re.match\<close> (anchored at the start only):
  \<^verbatim>\<open>(\d+)D(\d+)'([\d.]+)"([NS])\s*(\d+)D(\d+)'([\d.]+)"([EW])\<close>, \<^verbatim>\<open>D\<close> the degree sign.
\<close>

definition re_match_dms ::
  "string \<Rightarrow> (string \<times> string \<times> string \<times> char \<times> string \<times> string \<times> string \<times> char) option" where
  "re_match_dms s = do {
     (lat_d, s1) \<leftarrow> re_plus is_digit s;
     s2 \<leftarrow> re_char deg s1;
     (lat_m, s3) \<leftarrow> re_plus is_digit s2;
     s4 \<leftarrow> re_char apos s3;
     (lat_s, s5) \<leftarrow> re_plus is_digit_or_dot s4;
     s6 \<leftarrow> re_char dquote s5;
     (lat_dir, s7) \<leftarrow> re_class ''NS'' s6;
     (lon_d, s8) \<leftarrow> re_plus is_digit (dropWhile is_space s7);
     s9 \<leftarrow> re_char deg s8;
     (lon_m, s10) \<leftarrow> re_plus is_digit s9;
     s11 \<leftarrow> re_char apos s10;
     (lon_s, s12) \<leftarrow> re_plus is_digit_or_dot s11;
     s13 \<leftarrow> re_char dquote s12;
     (lon_dir, s14) \<leftarrow> re_class ''EW'' s13;
     Some (lat_d, lat_m, lat_s, lat_dir, lon_d, lon_m, lon_s, lon_dir)
   }"

text \<open>\<^verbatim>\<open>float(d) + float(m)/60 + float(s)/3600\<close> of lines 59 and 60.\<close>

definition dms_degrees :: "string \<Rightarrow> string \<Rightarrow> string \<Rightarrow> exn + real" where
  "dms_degrees d m s =
     (case py_float d of Inl e \<Rightarrow> Inl e | Inr fd \<Rightarrow>
     (case py_float m of Inl e \<Rightarrow> Inl e | Inr fm \<Rightarrow>
     (case py_float s of Inl e \<Rightarrow> Inl e | Inr fs \<Rightarrow>
        Inr (fd + fm / 60 + fs / 3600))))"

definition parse_dms_coordinate :: "string \<Rightarrow> exn + (real \<times> real) option" where
  "parse_dms_coordinate coord_str =
     (case re_match_dms coord_str of
        None \<Rightarrow> Inr None
      | Some (lat_d, lat_m, lat_s, lat_dir, lon_d, lon_m, lon_s, lon_dir) \<Rightarrow>
          (case dms_degrees lat_d lat_m lat_s of Inl e \<Rightarrow> Inl e | Inr lat \<Rightarrow>
          (case dms_degrees lon_d lon_m lon_s of Inl e \<Rightarrow> Inl e | Inr lon \<Rightarrow>
             Inr (Some (lat * (if lat_dir = CHR ''N'' then 1 else - 1),
                        lon * (if lon_dir = CHR ''E'' then 1 else - 1))))))"

text \<open>\<^verbatim>\<open>(-?\d+\.\d+)\<close>: the group and the rest of the text.\<close>

definition re_signed_decimal :: "string \<Rightarrow> (string \<times> string) option" where
  "re_signed_decimal s = do {
     let (sg, s1) = (case s of [] \<Rightarrow> ([], s)
                     | c # r \<Rightarrow> if c = CHR ''-'' then ([c], r) else ([], s));
     (ip, s2) \<leftarrow> re_plus is_digit s1;
     s3 \<leftarrow> re_char (CHR ''.'') s2;
     (fp, s4) \<leftarrow> re_plus is_digit s3;
     Some (sg @ ip @ ''.'' @ fp, s4)
   }"

text \<open>A pattern \<^verbatim>\<open>P(-?\d+\.\d+),(-?\d+\.\d+)\<close> with the literal \<open>P\<close>, matched at the head.\<close>

definition re_match_pair :: "string \<Rightarrow> string \<Rightarrow> (string \<times> string) option" where
  "re_match_pair lit s = do {
     s1 \<leftarrow> re_lit lit s;
     (g1, s2) \<leftarrow> re_signed_decimal s1;
     s3 \<leftarrow> re_char (CHR '','') s2;
     (g2, s4) \<leftarrow> re_signed_decimal s3;
     Some (g1, g2)
   }"

text \<open>\<^verbatim>\<open>re.search\<close>: the match at the leftmost position that has one.\<close>

fun re_search_pair :: "string \<Rightarrow> string \<Rightarrow> (string \<times> string) option" where
  "re_search_pair lit [] = re_match_pair lit []"
| "re_search_pair lit (c # cs) =
     (case re_match_pair lit (c # cs) of
        Some g \<Rightarrow> Some g
      | None \<Rightarrow> re_search_pair lit cs)"

text \<open>Lines 144 to 153: the \<^verbatim>\<open>@lat,lon\<close> pattern first, then \<^verbatim>\<open>ll=lat,lon\<close>.\<close>

fun search_patterns :: "string list \<Rightarrow> string \<Rightarrow> exn + (real \<times> real) option" where
  "search_patterns [] link = Inr None"
| "search_patterns (pattern # patterns) link =
     (case re_search_pair pattern link of
        Some (g1, g2) \<Rightarrow>
          (case py_float g1 of Inl e \<Rightarrow> Inl e | Inr lat \<Rightarrow>
          (case py_float g2 of Inl e \<Rightarrow> Inl e | Inr lon \<Rightarrow> Inr (Some (lat, lon))))
      | None \<Rightarrow> search_patterns patterns link)"

definition extract_coords_from_google_maps_link :: "string \<Rightarrow> exn + (real \<times> real) option" where
  "extract_coords_from_google_maps_link link = search_patterns [''@'', ''ll=''] link"

text \<open>
  Line 167, \<^verbatim>\<open>re.match(r'^\+?880\d{10}$', contact)\<close>; \<^verbatim>\<open>$\<close> also matches before a
  newline that ends the text.
\<close>

definition re_match_contact :: "string \<Rightarrow> bool" where
  "re_match_contact s =
     (let s1 = (case s of [] \<Rightarrow> s | c # r \<Rightarrow> if c = CHR ''+'' then r else s) in
      case re_lit ''880'' s1 of
        None \<Rightarrow> False
      | Some s2 \<Rightarrow>
          length s2 \<ge> 10 \<and> list_all is_digit (take 10 s2)
          \<and> (drop 10 s2 = [] \<or> drop 10 s2 = [CHR 0x0A]))"

subsection \<open>Dates: \<^verbatim>\<open>datetime.strptime(s, '%Y-%m-%d').date().isoformat()\<close>\<close>

text \<open>
  \<^verbatim>\<open>strptime\<close> compiles the format to
  \<^verbatim>\<open>(\d\d\d\d)-(1[0-2]|0[1-9]|[1-9])-(3[0-1]|[1-2]\d|0[1-9]|[1-9]| [1-9])\<close>, takes the first
  match in the order of the alternatives, raises \<^verbatim>\<open>ValueError\<close> when text remains after
  it, and raises it again when the three numbers are not a date of the calendar.
\<close>

fun first_some :: "('a \<Rightarrow> 'b option) \<Rightarrow> 'a list \<Rightarrow> 'b option" where
  "first_some f [] = None"
| "first_some f (x # xs) = (case f x of Some y \<Rightarrow> Some y | None \<Rightarrow> first_some f xs)"

definition re_year :: "string \<Rightarrow> (string \<times> string) option" where
  "re_year s =
     (if 4 \<le> length s \<and> list_all is_digit (take 4 s) then Some (take 4 s, drop 4 s) else None)"

definition month_alternatives :: "string \<Rightarrow> (string \<times> string) list" where
  "month_alternatives s =
     (case s of
        a # b # r \<Rightarrow>
          (if a = CHR ''1'' \<and> b \<in> set ''012'' then [([a, b], r)] else []) @
          (if a = CHR ''0'' \<and> b \<in> set ''123456789'' then [([a, b], r)] else [])
      | _ \<Rightarrow> []) @
     (case s of
        a # r \<Rightarrow> if a \<in> set ''123456789'' then [([a], r)] else []
      | [] \<Rightarrow> [])"

definition day_alternatives :: "string \<Rightarrow> (string \<times> string) list" where
  "day_alternatives s =
     (case s of
        a # b # r \<Rightarrow>
          (if a = CHR ''3'' \<and> b \<in> set ''01'' then [([a, b], r)] else []) @
          (if a \<in> set ''12'' \<and> is_digit b then [([a, b], r)] else []) @
          (if a = CHR ''0'' \<and> b \<in> set ''123456789'' then [([a, b], r)] else [])
      | _ \<Rightarrow> []) @
     (case s of
        a # r \<Rightarrow> if a \<in> set ''123456789'' then [([a], r)] else []
      | [] \<Rightarrow> []) @
     (case s of
        a # b # r \<Rightarrow> if a = CHR '' '' \<and> b \<in> set ''123456789'' then [([a, b], r)] else []
      | _ \<Rightarrow> [])"

text \<open>The groups \<open>Y\<close>, \<open>m\<close>, \<open>d\<close> of the first match, and the text after it.\<close>

definition re_match_ymd :: "string \<Rightarrow> (string \<times> string \<times> string \<times> string) option" where
  "re_match_ymd s = do {
     (y, s1) \<leftarrow> re_year s;
     s2 \<leftarrow> re_char (CHR ''-'') s1;
     first_some (\<lambda>(m, s3). do {
         s4 \<leftarrow> re_char (CHR ''-'') s3;
         first_some (\<lambda>(d, s5). Some (y, m, d, s5)) (day_alternatives s4)
       }) (month_alternatives s2)
   }"

definition is_leap :: "nat \<Rightarrow> bool" where
  "is_leap y = (y mod 4 = 0 \<and> (y mod 100 \<noteq> 0 \<or> y mod 400 = 0))"

definition days_in_month :: "nat \<Rightarrow> nat \<Rightarrow> nat" where
  "days_in_month y m =
     (if m = 2 then (if is_leap y then 29 else 28)
      else if m \<in> set [4, 6, 9, 11] then 30 else 31)"

definition strptime_ymd :: "string \<Rightarrow> exn + date" where
  "strptime_ymd s =
     (case re_match_ymd s of
        None \<Rightarrow> Inl ValueError
      | Some (y, m, d, unconverted) \<Rightarrow>
          if unconverted \<noteq> [] then Inl ValueError
          else
            (let year = nat_of_digits y; month = nat_of_digits m;
                 day = nat_of_digits (dropWhile (\<lambda>c. c = CHR '' '') d)
             in if 1 \<le> year \<and> 1 \<le> month \<and> month \<le> 12
                   \<and> 1 \<le> day \<and> day \<le> days_in_month year month
                then Inr (year, month, day) else Inl ValueError))"

definition digit_char :: "nat \<Rightarrow> char" where
  "digit_char n = char_of (48 + n mod 10)"

definition isoformat :: "date \<Rightarrow> string" where
  "isoformat dt =
     (case dt of (y, m, d) \<Rightarrow>
        [digit_char (y div 1000), digit_char (y div 100), digit_char (y div 10), digit_char y]
        @ ''-'' @ [digit_char (m div 10), digit_char m]
        @ ''-'' @ [digit_char (d div 10), digit_char d])"

subsection \<open>The donor store\<close>

text \<open>
  Lines 35 to 46: the table \<^verbatim>\<open>donors\<close>, one row per registration, \<^verbatim>\<open>user_id\<close> declared
  \<^verbatim>\<open>UNIQUE\<close>. The serial \<^verbatim>\<open>id\<close> is read by no query of the program and is left out. The
  table is the list of its rows in insertion order.
\<close>

record donor =
  d_user_id :: int
  d_name :: string
  d_blood_type :: string
  d_latitude :: real
  d_longitude :: real
  d_contact :: string
  d_last_donation :: "date option"

type_synonym donors_table = "donor list"

text \<open>
  Lines 192 to 205: \<^verbatim>\<open>INSERT ... ON CONFLICT (user_id) DO UPDATE SET ...\<close>. A row with
  the same \<^verbatim>\<open>user_id\<close> takes the six new values where it stands; otherwise the new row
  is added.
\<close>

definition insert_on_conflict_update :: "donor \<Rightarrow> donors_table \<Rightarrow> donors_table" where
  "insert_on_conflict_update excluded tbl =
     (if d_user_id excluded \<in> set (map d_user_id tbl)
      then map (\<lambda>r. if d_user_id r = d_user_id excluded
                     then r\<lparr>d_name := d_name excluded,
                            d_blood_type := d_blood_type excluded,
                            d_latitude := d_latitude excluded,
                            d_longitude := d_longitude excluded,
                            d_contact := d_contact excluded,
                            d_last_donation := d_last_donation excluded\<rparr>
                     else r) tbl
      else tbl @ [excluded])"

text \<open>
  How \<^verbatim>\<open>asyncpg\<close> encodes a query argument for the type of its column: a \<^verbatim>\<open>str\<close> for
  \<^verbatim>\<open>TEXT\<close>, a \<^verbatim>\<open>float\<close> for \<^verbatim>\<open>REAL\<close>, an \<^verbatim>\<open>int\<close> within 64 bits for \<^verbatim>\<open>BIGINT\<close>, and for
  \<^verbatim>\<open>DATE\<close> a \<^verbatim>\<open>datetime.date\<close> or \<^verbatim>\<open>None\<close>. A \<^verbatim>\<open>str\<close> given for a \<^verbatim>\<open>DATE\<close> is not
  converted: the call raises \<^verbatim>\<open>DataError\<close>. \<^verbatim>\<open>None\<close> for a \<^verbatim>\<open>NOT NULL\<close> column is refused
  by the store.
\<close>

definition encode_bigint :: "int \<Rightarrow> exn + int" where
  "encode_bigint n = (if - (2 ^ 63) \<le> n \<and> n < 2 ^ 63 then Inr n else Inl DataError)"

fun encode_text_not_null :: "pyval \<Rightarrow> exn + string" where
  "encode_text_not_null (PyStr s) = Inr s"
| "encode_text_not_null PyNone = Inl StoreError"
| "encode_text_not_null _ = Inl DataError"

fun encode_real_not_null :: "pyval \<Rightarrow> exn + real" where
  "encode_real_not_null (PyFloat x) = Inr x"
| "encode_real_not_null PyNone = Inl StoreError"
| "encode_real_not_null _ = Inl DataError"

fun encode_date :: "pyval \<Rightarrow> exn + date option" where
  "encode_date PyNone = Inr None"
| "encode_date (PyDate dt) = Inr (Some dt)"
| "encode_date _ = Inl DataError"

subsection \<open>The environment of one update\<close>

datatype geo_result = Found real real | Not_found | Geocoder_raises

record env =
  store_up :: bool
  geocode :: "string \<Rightarrow> geo_result"
  geodesic :: "real \<times> real \<Rightarrow> real \<times> real \<Rightarrow> real"
  bot_username :: string

text \<open>
  \<open>store_up\<close>: the store call of this update (connect, query, close) goes through.
  \<open>geocode\<close>: what \<^verbatim>\<open>geolocator.geocode\<close> does with a query. \<open>geodesic\<close>: the function of
  that name the query of line 221 calls in the store.
\<close>

subsection \<open>The donor matcher\<close>

text \<open>
  Lines 219 to 226. The rows of the requested blood type, each with its distance, in
  ascending order of distance, the first \<open>limit\<close> of them. The store leaves the order of
  rows at equal distance open; the sort here keeps them in table order. A negative
  \<^verbatim>\<open>LIMIT\<close> is an error of the store, a limit beyond 64 bits and a blood type that is not
  a \<^verbatim>\<open>str\<close> are errors of the encoding.
\<close>

definition fetch_nearest ::
  "env \<Rightarrow> donors_table \<Rightarrow> real \<Rightarrow> real \<Rightarrow> pyval \<Rightarrow> int
     \<Rightarrow> exn + (string \<times> string \<times> real \<times> real \<times> real) list" where
  "fetch_nearest e tbl lat lon blood_type limit =
     (if \<not> store_up e then Inl StoreError
      else
        (case encode_text_not_null blood_type of
           Inl x \<Rightarrow> Inl x
         | Inr bt \<Rightarrow>
             (case encode_bigint limit of
                Inl x \<Rightarrow> Inl x
              | Inr n \<Rightarrow>
                  if n < 0 then Inl StoreError
                  else Inr (take (nat n)
                         (sort_key (\<lambda>(name, contact, la, lo, distance). distance)
                            (map (\<lambda>r. (d_name r, d_contact r, d_latitude r, d_longitude r,
                                        geodesic e (d_latitude r, d_longitude r) (lat, lon)))
                               (filter (\<lambda>r. d_blood_type r = bt) tbl)))))))"

text \<open>Lines 215 to 231: any exception of the query gives the empty list.\<close>

definition find_nearest_donors ::
  "env \<Rightarrow> donors_table \<Rightarrow> real \<Rightarrow> real \<Rightarrow> pyval \<Rightarrow> int \<Rightarrow> (string \<times> string \<times> real) list" where
  "find_nearest_donors e tbl lat lon blood_type limit =
     (case fetch_nearest e tbl lat lon blood_type limit of
        Inl x \<Rightarrow> []
      | Inr rows \<Rightarrow> map (\<lambda>(name, contact, la, lo, distance). (name, contact, distance)) rows)"

subsection \<open>Updates, replies and the session\<close>

text \<open>
  An update is a new message (with a text or a native location) or a callback query
  with its data token, from one user. A text that starts with a command, as
  \<^verbatim>\<open>/start\<close> does, is a text message like any other: it has a \<^verbatim>\<open>text\<close>.
\<close>

record user =
  user_id :: int
  full_name :: string

record message =
  msg_text :: "string option"
  msg_location :: "(real \<times> real) option"

datatype update = Message message | CallbackQuery string

datatype state = MENU | LOCATION | BLOOD_TYPE | CONTACT | PROFILE | FIND | EMERGENCY | LOCATION_FIND

text \<open>What a handler returns: a state of line 26, or \<^verbatim>\<open>ConversationHandler.END\<close>.\<close>

datatype next_state = Goto state | END

definition BLOOD_TYPES :: "string list" where
  "BLOOD_TYPES = [''A+'', ''A-'', ''B+'', ''B-'', ''AB+'', ''AB-'', ''O+'', ''O-'']"

text \<open>
  The keyboard of lines 98 and 139, as the rows of its buttons' \<^verbatim>\<open>callback_data\<close>:
  \<^verbatim>\<open>blood_\<close> followed by a blood type, two buttons a row.
\<close>

definition blood_type_keyboard :: "string list list" where
  "blood_type_keyboard =
     map (\<lambda>i. map (\<lambda>bt. ''blood_'' @ bt) (take 2 (drop i BLOOD_TYPES))) [0, 2, 4, 6]"

text \<open>The texts the program sends, one constructor for each \<^verbatim>\<open>reply_text\<close> of the source.\<close>

datatype reply =
    Welcome bool  \<comment> \<open>line 80; the flag: the profile button is on the keyboard\<close>
  | Share_location  \<comment> \<open>line 93\<close>
  | Ask_blood_type_needed "string list list"  \<comment> \<open>line 100, with its keyboard\<close>
  | Invalid_choice  \<comment> \<open>line 105\<close>
  | Invalid_location  \<comment> \<open>lines 129, 136, 269, 276\<close>
  | Location_error  \<comment> \<open>lines 133, 273: an error occurred, please try again\<close>
  | Ask_blood_type "string list list"  \<comment> \<open>line 141, with its keyboard\<close>
  | Ask_contact  \<comment> \<open>line 161\<close>
  | Ask_last_donation  \<comment> \<open>line 169\<close>
  | Invalid_contact  \<comment> \<open>line 172\<close>
  | Invalid_date  \<comment> \<open>line 184\<close>
  | Registered  \<comment> \<open>line 208: your information has been saved\<close>
  | Save_error  \<comment> \<open>line 211: an error occurred while saving, try again later\<close>
  | Share_location_find  \<comment> \<open>line 235\<close>
  | Share_location_emergency  \<comment> \<open>line 245\<close>
  | Found_donors "(string \<times> string \<times> real) list"  \<comment> \<open>line 284\<close>
  | No_donors  \<comment> \<open>line 286: no donors found nearby\<close>
  | Profile_text donor  \<comment> \<open>line 304\<close>
  | Profile_not_found  \<comment> \<open>line 314\<close>
  | Profile_error  \<comment> \<open>line 317: an error occurred while fetching, try again later\<close>

text \<open>
  \<^verbatim>\<open>context.user_data\<close>: the scratchpad, a dictionary that lives as long as the process
  and is never cleared by the program.
\<close>

type_synonym user_data = "string \<rightharpoonup> pyval"

text \<open>What a handler that returns leaves behind.\<close>

record result =
  r_next :: next_state
  r_replies :: "reply list"
  r_data :: user_data
  r_donors :: donors_table

subsection \<open>The handlers\<close>

text \<open>Lines 64 to 86. The store call is not guarded: its exception leaves the handler.\<close>

definition start :: "env \<Rightarrow> user \<Rightarrow> user_data \<Rightarrow> donors_table \<Rightarrow> exn + result" where
  "start e u ud tbl =
     (if \<not> store_up e then Inl StoreError
      else
        (let user_is_registered = (user_id u \<in> set (map d_user_id tbl))
         in Inr \<lparr>r_next = Goto MENU, r_replies = [Welcome user_is_registered],
                 r_data = ud, r_donors = tbl\<rparr>))"

text \<open>Lines 233 to 236.\<close>

definition find_blood :: "user_data \<Rightarrow> donors_table \<Rightarrow> exn + result" where
  "find_blood ud tbl =
     Inr \<lparr>r_next = Goto LOCATION_FIND, r_replies = [Share_location_find],
          r_data = ud, r_donors = tbl\<rparr>"

text \<open>Lines 290 to 319.\<close>

definition show_profile :: "env \<Rightarrow> user \<Rightarrow> user_data \<Rightarrow> donors_table \<Rightarrow> exn + result" where
  "show_profile e u ud tbl =
     Inr \<lparr>r_next = END,
          r_replies =
            (if \<not> store_up e then [Profile_error]
             else (case find (\<lambda>r. d_user_id r = user_id u) tbl of
                     Some row \<Rightarrow> [Profile_text row]
                   | None \<Rightarrow> [Profile_not_found])),
          r_data = ud, r_donors = tbl\<rparr>"

text \<open>Lines 88 to 106.\<close>

definition menu_callback ::
  "env \<Rightarrow> user \<Rightarrow> string \<Rightarrow> user_data \<Rightarrow> donors_table \<Rightarrow> exn + result" where
  "menu_callback e u query_data ud tbl =
     (if query_data = ''donate''
      then Inr \<lparr>r_next = Goto LOCATION, r_replies = [Share_location],
                r_data = ud, r_donors = tbl\<rparr>
      else if query_data = ''find'' then find_blood ud tbl
      else if query_data = ''emergency''
      then Inr \<lparr>r_next = Goto EMERGENCY, r_replies = [Ask_blood_type_needed blood_type_keyboard],
                r_data = ud, r_donors = tbl\<rparr>
      else if query_data = ''profile'' then show_profile e u ud tbl
      else Inr \<lparr>r_next = Goto MENU, r_replies = [Invalid_choice],
                r_data = ud, r_donors = tbl\<rparr>)"

text \<open>
  The location resolver: lines 111 to 137 and, the same code again, lines 251 to 277.
  Its result is a pair of coordinates, or the reply that sends the user back to the
  same state. An exception of \<^verbatim>\<open>parse_dms_coordinate\<close> is not caught.
\<close>

datatype resolution = Coordinates real real | Unresolved reply

definition resolve :: "env \<Rightarrow> message \<Rightarrow> exn + resolution" where
  "resolve e m =
     (case msg_location m of
        Some (latitude, longitude) \<Rightarrow> Inr (Coordinates latitude longitude)
      | None \<Rightarrow>
          (case msg_text m of
             None \<Rightarrow> Inr (Unresolved Invalid_location)
           | Some text \<Rightarrow>
               if text = [] then Inr (Unresolved Invalid_location)
               else
                 (case parse_dms_coordinate text of
                    Inl x \<Rightarrow> Inl x
                  | Inr (Some (latitude, longitude)) \<Rightarrow> Inr (Coordinates latitude longitude)
                  | Inr None \<Rightarrow>
                      (case extract_coords_from_google_maps_link text of
                         Inl x \<Rightarrow> Inl x
                       | Inr (Some (latitude, longitude)) \<Rightarrow>
                           Inr (Coordinates latitude longitude)
                       | Inr None \<Rightarrow>
                           (case geocode e (text @ '', Bangladesh'') of
                              Found latitude longitude \<Rightarrow> Inr (Coordinates latitude longitude)
                            | Not_found \<Rightarrow> Inr (Unresolved Invalid_location)
                            | Geocoder_raises \<Rightarrow> Inr (Unresolved Location_error))))))"

text \<open>Lines 108 to 142.\<close>

definition location :: "env \<Rightarrow> message \<Rightarrow> user_data \<Rightarrow> donors_table \<Rightarrow> exn + result" where
  "location e m ud tbl =
     (case resolve e m of
        Inl x \<Rightarrow> Inl x
      | Inr (Unresolved r) \<Rightarrow>
          Inr \<lparr>r_next = Goto LOCATION, r_replies = [r], r_data = ud, r_donors = tbl\<rparr>
      | Inr (Coordinates latitude longitude) \<Rightarrow>
          Inr \<lparr>r_next = Goto BLOOD_TYPE, r_replies = [Ask_blood_type blood_type_keyboard],
               r_data = ud(''latitude'' \<mapsto> PyFloat latitude, ''longitude'' \<mapsto> PyFloat longitude),
               r_donors = tbl\<rparr>)"

text \<open>Lines 155 to 162.\<close>

definition blood_type_callback :: "string \<Rightarrow> user_data \<Rightarrow> donors_table \<Rightarrow> exn + result" where
  "blood_type_callback query_data ud tbl =
     (case index1 (py_split (CHR ''_'') query_data) of
        Inl x \<Rightarrow> Inl x
      | Inr blood_type \<Rightarrow>
          Inr \<lparr>r_next = Goto CONTACT, r_replies = [Ask_contact],
               r_data = ud(''blood_type'' \<mapsto> PyStr blood_type), r_donors = tbl\<rparr>)"

text \<open>Lines 164 to 173.\<close>

definition contact :: "message \<Rightarrow> user_data \<Rightarrow> donors_table \<Rightarrow> exn + result" where
  "contact m ud tbl =
     (case msg_text m of
        None \<Rightarrow> Inl TypeError
      | Some text \<Rightarrow>
          if re_match_contact text
          then Inr \<lparr>r_next = Goto PROFILE, r_replies = [Ask_last_donation],
                    r_data = ud(''contact'' \<mapsto> PyStr text), r_donors = tbl\<rparr>
          else Inr \<lparr>r_next = Goto CONTACT, r_replies = [Invalid_contact],
                    r_data = ud, r_donors = tbl\<rparr>)"

text \<open>\<^verbatim>\<open>context.user_data[key]\<close>.\<close>

definition getitem :: "user_data \<Rightarrow> string \<Rightarrow> exn + pyval" where
  "getitem ud key = (case ud key of None \<Rightarrow> Inl (KeyError key) | Some v \<Rightarrow> Inr v)"

text \<open>
  Lines 190 to 206, the body of the \<^verbatim>\<open>try\<close>: connect, read the four fields of the
  scratchpad, encode the seven arguments, run the statement.
\<close>

definition save_donor ::
  "env \<Rightarrow> user \<Rightarrow> user_data \<Rightarrow> pyval \<Rightarrow> donors_table \<Rightarrow> exn + donors_table" where
  "save_donor e u ud last_donation tbl =
     (if \<not> store_up e then Inl StoreError else
     (case getitem ud ''blood_type'' of Inl x \<Rightarrow> Inl x | Inr blood_type \<Rightarrow>
     (case getitem ud ''latitude'' of Inl x \<Rightarrow> Inl x | Inr latitude \<Rightarrow>
     (case getitem ud ''longitude'' of Inl x \<Rightarrow> Inl x | Inr longitude \<Rightarrow>
     (case getitem ud ''contact'' of Inl x \<Rightarrow> Inl x | Inr contact_number \<Rightarrow>
     (case encode_bigint (user_id u) of Inl x \<Rightarrow> Inl x | Inr a1 \<Rightarrow>
     (case encode_text_not_null (PyStr (full_name u)) of Inl x \<Rightarrow> Inl x | Inr a2 \<Rightarrow>
     (case encode_text_not_null blood_type of Inl x \<Rightarrow> Inl x | Inr a3 \<Rightarrow>
     (case encode_real_not_null latitude of Inl x \<Rightarrow> Inl x | Inr a4 \<Rightarrow>
     (case encode_real_not_null longitude of Inl x \<Rightarrow> Inl x | Inr a5 \<Rightarrow>
     (case encode_text_not_null contact_number of Inl x \<Rightarrow> Inl x | Inr a6 \<Rightarrow>
     (case encode_date last_donation of Inl x \<Rightarrow> Inl x | Inr a7 \<Rightarrow>
        Inr (insert_on_conflict_update
               \<lparr>d_user_id = a1, d_name = a2, d_blood_type = a3, d_latitude = a4,
                d_longitude = a5, d_contact = a6, d_last_donation = a7\<rparr> tbl)))))))))))))"

text \<open>
  Lines 175 to 213. The date that was parsed is kept as the \<^verbatim>\<open>str\<close> that
  \<^verbatim>\<open>isoformat()\<close> returns. Every exception of the \<^verbatim>\<open>try\<close> is caught, and the handler
  returns \<^verbatim>\<open>END\<close> after either message.
\<close>

definition profile :: "env \<Rightarrow> user \<Rightarrow> message \<Rightarrow> user_data \<Rightarrow> donors_table \<Rightarrow> exn + result" where
  "profile e u m ud tbl =
     (case msg_text m of
        None \<Rightarrow> Inl AttributeError
      | Some text \<Rightarrow>
          (case (if py_lower text = ''never'' then Inr PyNone
                 else (case strptime_ymd text of
                         Inl x \<Rightarrow> Inl x
                       | Inr dt \<Rightarrow> Inr (PyStr (isoformat dt)))) of
             Inl x \<Rightarrow>
               Inr \<lparr>r_next = Goto PROFILE, r_replies = [Invalid_date],
                    r_data = ud, r_donors = tbl\<rparr>
           | Inr last_donation \<Rightarrow>
               (case save_donor e u ud last_donation tbl of
                  Inr tbl' \<Rightarrow>
                    Inr \<lparr>r_next = END, r_replies = [Registered], r_data = ud, r_donors = tbl'\<rparr>
                | Inl x \<Rightarrow>
                    Inr \<lparr>r_next = END, r_replies = [Save_error], r_data = ud, r_donors = tbl\<rparr>)))"

text \<open>Lines 238 to 246.\<close>

definition emergency_callback :: "string \<Rightarrow> user_data \<Rightarrow> donors_table \<Rightarrow> exn + result" where
  "emergency_callback query_data ud tbl =
     (case index1 (py_split (CHR ''_'') query_data) of
        Inl x \<Rightarrow> Inl x
      | Inr blood_type \<Rightarrow>
          Inr \<lparr>r_next = Goto LOCATION_FIND, r_replies = [Share_location_emergency],
               r_data = ud(''blood_type'' \<mapsto> PyStr blood_type), r_donors = tbl\<rparr>)"

text \<open>
  Lines 248 to 288. Line 279 reads the blood type from the scratchpad outside any
  \<^verbatim>\<open>try\<close>; the matcher runs with its default limit 5.
\<close>

definition location_find :: "env \<Rightarrow> message \<Rightarrow> user_data \<Rightarrow> donors_table \<Rightarrow> exn + result" where
  "location_find e m ud tbl =
     (case resolve e m of
        Inl x \<Rightarrow> Inl x
      | Inr (Unresolved r) \<Rightarrow>
          Inr \<lparr>r_next = Goto LOCATION_FIND, r_replies = [r], r_data = ud, r_donors = tbl\<rparr>
      | Inr (Coordinates latitude longitude) \<Rightarrow>
          (case getitem ud ''blood_type'' of
             Inl x \<Rightarrow> Inl x
           | Inr blood_type \<Rightarrow>
               (let donors = find_nearest_donors e tbl latitude longitude blood_type 5
                in Inr \<lparr>r_next = END,
                        r_replies = [if donors \<noteq> [] then Found_donors donors else No_donors],
                        r_data = ud, r_donors = tbl\<rparr>)))"

subsection \<open>The conversation handler of lines 324 to 336\<close>

text \<open>
  The dispatch of \<^verbatim>\<open>telegram.ext.ConversationHandler\<close> as line 324 configures it
  (\<^verbatim>\<open>allow_reentry\<close> left at its default): with no conversation, the entry points are
  tried; in a state, the handlers of that state are tried first and the fallbacks only
  when none of them accepts the update; an update nobody accepts is dropped.
\<close>

datatype callback =
    Cb_start | Cb_menu_callback | Cb_location | Cb_blood_type_callback
  | Cb_contact | Cb_profile | Cb_location_find | Cb_emergency_callback

datatype msg_filter = F_LOCATION | F_TEXT | F_or msg_filter msg_filter

datatype handler =
    CommandHandler string callback
  | MessageHandler msg_filter callback
  | CallbackQueryHandler callback "string option"

text \<open>
  \<^verbatim>\<open>filters.TEXT\<close> accepts every message that has a text, a command included;
  \<^verbatim>\<open>filters.LOCATION\<close> every message that has a location.
\<close>

fun filter_check :: "msg_filter \<Rightarrow> message \<Rightarrow> bool" where
  "filter_check F_LOCATION m = (msg_location m \<noteq> None)"
| "filter_check F_TEXT m = (case msg_text m of None \<Rightarrow> False | Some t \<Rightarrow> t \<noteq> [])"
| "filter_check (F_or f g) m = (filter_check f m \<or> filter_check g m)"

definition is_command_char :: "char \<Rightarrow> bool" where
  "is_command_char c =
     (c \<in> set ''abcdefghijklmnopqrstuvwxyzABCDEFGHIJKLMNOPQRSTUVWXYZ0123456789_'')"

text \<open>
  The command of a text that starts with one: \<^verbatim>\<open>/name\<close>, or \<^verbatim>\<open>/name@bot\<close> when the
  mention is this bot's name.
\<close>

definition bot_command :: "string \<Rightarrow> string \<Rightarrow> string option" where
  "bot_command botname text =
     (case text of
        [] \<Rightarrow> None
      | c # r \<Rightarrow>
          if c \<noteq> CHR ''/'' \<or> takeWhile is_command_char r = [] then None
          else
            (case dropWhile is_command_char r of
               [] \<Rightarrow> Some (takeWhile is_command_char r)
             | a # mention \<Rightarrow>
                 if a = CHR ''@'' \<and> takeWhile is_command_char mention \<noteq> []
                    \<and> py_lower (takeWhile is_command_char mention) \<noteq> py_lower botname
                 then None
                 else Some (takeWhile is_command_char r)))"

text \<open>
  Whether a handler accepts an update. A pattern of a \<^verbatim>\<open>CallbackQueryHandler\<close> is
  matched with \<^verbatim>\<open>re.match\<close>; the one pattern of the program, \<^verbatim>\<open>^blood_\<close>, is kept as
  the prefix it asks for.
\<close>

fun check_update :: "string \<Rightarrow> handler \<Rightarrow> update \<Rightarrow> bool" where
  "check_update botname (CommandHandler c cb) (Message m) =
     (case msg_text m of
        None \<Rightarrow> False
      | Some t \<Rightarrow> (case bot_command botname t of None \<Rightarrow> False | Some name \<Rightarrow> py_lower name = c))"
| "check_update botname (CommandHandler c cb) (CallbackQuery d) = False"
| "check_update botname (MessageHandler f cb) (Message m) = filter_check f m"
| "check_update botname (MessageHandler f cb) (CallbackQuery d) = False"
| "check_update botname (CallbackQueryHandler cb pat) (CallbackQuery d) =
     (case pat of None \<Rightarrow> True | Some p \<Rightarrow> re_lit p d \<noteq> None)"
| "check_update botname (CallbackQueryHandler cb pat) (Message m) = False"

fun handler_callback :: "handler \<Rightarrow> callback" where
  "handler_callback (CommandHandler c cb) = cb"
| "handler_callback (MessageHandler f cb) = cb"
| "handler_callback (CallbackQueryHandler cb pat) = cb"

definition entry_points :: "handler list" where
  "entry_points = [CommandHandler ''start'' Cb_start]"

fun states :: "state \<Rightarrow> handler list" where
  "states MENU = [CallbackQueryHandler Cb_menu_callback None]"
| "states LOCATION = [MessageHandler (F_or F_LOCATION F_TEXT) Cb_location]"
| "states BLOOD_TYPE = [CallbackQueryHandler Cb_blood_type_callback (Some ''blood_'')]"
| "states CONTACT = [MessageHandler F_TEXT Cb_contact]"
| "states PROFILE = [MessageHandler F_TEXT Cb_profile]"
| "states LOCATION_FIND = [MessageHandler (F_or F_LOCATION F_TEXT) Cb_location_find]"
| "states EMERGENCY = [CallbackQueryHandler Cb_emergency_callback (Some ''blood_'')]"
| "states FIND = []"

definition fallbacks :: "handler list" where
  "fallbacks = [CommandHandler ''start'' Cb_start]"

definition first_accepting :: "string \<Rightarrow> handler list \<Rightarrow> update \<Rightarrow> callback option" where
  "first_accepting botname hs upd = map_option handler_callback (find (\<lambda>h. check_update botname h upd) hs)"

definition conversation_check :: "string \<Rightarrow> state option \<Rightarrow> update \<Rightarrow> callback option" where
  "conversation_check botname st upd =
     (case st of
        None \<Rightarrow> first_accepting botname entry_points upd
      | Some s \<Rightarrow>
          (case first_accepting botname (states s) upd of
             Some cb \<Rightarrow> Some cb
           | None \<Rightarrow> first_accepting botname fallbacks upd))"

text \<open>
  The call of a handler on an update. A handler reads \<^verbatim>\<open>update.message\<close> or
  \<^verbatim>\<open>update.callback_query\<close>; on an update of the other kind that is \<^verbatim>\<open>None\<close> and the
  first attribute read raises.
\<close>

fun run_callback ::
  "callback \<Rightarrow> env \<Rightarrow> user \<Rightarrow> update \<Rightarrow> user_data \<Rightarrow> donors_table \<Rightarrow> exn + result" where
  "run_callback Cb_start e u (Message m) ud tbl = start e u ud tbl"
| "run_callback Cb_menu_callback e u (CallbackQuery d) ud tbl = menu_callback e u d ud tbl"
| "run_callback Cb_location e u (Message m) ud tbl = location e m ud tbl"
| "run_callback Cb_blood_type_callback e u (CallbackQuery d) ud tbl = blood_type_callback d ud tbl"
| "run_callback Cb_contact e u (Message m) ud tbl = contact m ud tbl"
| "run_callback Cb_profile e u (Message m) ud tbl = profile e u m ud tbl"
| "run_callback Cb_location_find e u (Message m) ud tbl = location_find e m ud tbl"
| "run_callback Cb_emergency_callback e u (CallbackQuery d) ud tbl = emergency_callback d ud tbl"
| "run_callback cb e u upd ud tbl = Inl AttributeError"

text \<open>
  The session of one user and the store. \<open>w_conv\<close> is the state of the conversation,
  \<open>None\<close> when there is none (before the first \<^verbatim>\<open>/start\<close>, and after \<^verbatim>\<open>END\<close>).
\<close>

record world =
  w_conv :: "state option"
  w_data :: user_data
  w_donors :: donors_table

text \<open>
  One update: the world after it, the replies sent, and the exception when the handler
  raised one. A handler that raises leaves the state of the conversation as it was.
\<close>

definition handle_update :: "env \<Rightarrow> user \<Rightarrow> update \<Rightarrow> world \<Rightarrow> world \<times> reply list \<times> exn option" where
  "handle_update e u upd w =
     (case conversation_check (bot_username e) (w_conv w) upd of
        None \<Rightarrow> (w, [], None)
      | Some cb \<Rightarrow>
          (case run_callback cb e u upd (w_data w) (w_donors w) of
             Inl x \<Rightarrow> (w, [], Some x)
           | Inr r \<Rightarrow>
               (\<lparr>w_conv = (case r_next r of Goto s \<Rightarrow> Some s | END \<Rightarrow> None),
                 w_data = r_data r, w_donors = r_donors r\<rparr>,
                r_replies r, None)))"

fun run :: "user \<Rightarrow> (env \<times> update) list \<Rightarrow> world \<Rightarrow> world" where
  "run u [] w = w"
| "run u ((e, upd) # rest) w = run u rest (fst (handle_update e u upd w))"

definition text_message :: "string \<Rightarrow> update" where
  "text_message t = Message \<lparr>msg_text = Some t, msg_location = None\<rparr>"

definition location_message :: "real \<Rightarrow> real \<Rightarrow> update" where
  "location_message lat lon = Message \<lparr>msg_text = None, msg_location = Some (lat, lon)\<rparr>"

definition fresh :: world where
  "fresh = \<lparr>w_conv = None, w_data = Map.empty, w_donors = []\<rparr>"

subsection \<open>Concrete inputs\<close>

text \<open>
  An environment whose store answers and whose geocoder finds nothing, the same with the
  store down, a user, and a table of four donors. The distance of the example is the
  sum of the two coordinate differences: any function may stand for the store's.
\<close>

definition example_env :: env where
  "example_env =
     \<lparr>store_up = True, geocode = (\<lambda>q. Not_found),
      geodesic = (\<lambda>(a, b) (c, d). \<bar>a - c\<bar> + \<bar>b - d\<bar>),
      bot_username = ''bloodly_bot''\<rparr>"

definition example_env_down :: env where
  "example_env_down = example_env\<lparr>store_up := False\<rparr>"

definition example_user :: user where
  "example_user = \<lparr>user_id = 42, full_name = ''Ann''\<rparr>"

definition example_donors :: donors_table where
  "example_donors =
     [\<lparr>d_user_id = 1, d_name = ''Cy'', d_blood_type = ''B-'', d_latitude = 24, d_longitude = 91,
       d_contact = ''+8801700000001'', d_last_donation = None\<rparr>,
      \<lparr>d_user_id = 2, d_name = ''Bob'', d_blood_type = ''O+'', d_latitude = 23, d_longitude = 90,
       d_contact = ''+8801700000002'', d_last_donation = Some (2023, 5, 1)\<rparr>,
      \<lparr>d_user_id = 3, d_name = ''Dee'', d_blood_type = ''B-'', d_latitude = 23.5, d_longitude = 90,
       d_contact = ''+8801700000003'', d_last_donation = None\<rparr>,
      \<lparr>d_user_id = 4, d_name = ''Eve'', d_blood_type = ''B-'', d_latitude = 23, d_longitude = 90,
       d_contact = ''+8801700000004'', d_last_donation = None\<rparr>]"

definition example_find_world :: world where
  "example_find_world =
     \<lparr>w_conv = Some LOCATION_FIND, w_data = [''blood_type'' \<mapsto> PyStr ''AB-''],
      w_donors = example_donors\<rparr>"

text \<open>
  The registration flow from \<^verbatim>\<open>/start\<close> to the answer about the last donation, with a
  native location, and the worlds it runs in: a session with no conversation and the
  four donors in the store, and that session driven up to the last question.
\<close>

definition registration_flow :: "string \<Rightarrow> string \<Rightarrow> (env \<times> update) list" where
  "registration_flow bt answer =
     [(example_env, text_message ''/start''),
      (example_env, CallbackQuery ''donate''),
      (example_env, location_message 23.8103 90.4125),
      (example_env, CallbackQuery (''blood_'' @ bt)),
      (example_env, text_message ''+8801712345678''),
      (example_env, text_message answer)]"

definition example_world :: world where
  "example_world = \<lparr>w_conv = None, w_data = Map.empty, w_donors = example_donors\<rparr>"

definition example_profile_world :: world where
  "example_profile_world =
     run example_user (butlast (registration_flow ''O+'' ''Never'')) example_world"

text \<open>An environment whose geocoder raises, and a session that was asked for a location.\<close>

definition example_env_geocoder_raises :: env where
  "example_env_geocoder_raises = example_env\<lparr>geocode := (\<lambda>q. Geocoder_raises)\<rparr>"

definition example_location_world :: world where
  "example_location_world =
     run example_user (take 2 (registration_flow ''O+'' ''Never'')) example_world"


text \<open>
  The find flow up to its request for a location, an emergency flow from \<^verbatim>\<open>/start\<close> to
  its result, the sessions they leave, and a text that the pattern of line 52 matches
  although its seconds are no number, followed by a map link.
\<close>

definition find_flow :: "(env \<times> update) list" where
  "find_flow = [(example_env, text_message ''/start''), (example_env, CallbackQuery ''find'')]"

definition emergency_flow :: "string \<Rightarrow> (env \<times> update) list" where
  "emergency_flow bt =
     [(example_env, text_message ''/start''),
      (example_env, CallbackQuery ''emergency''),
      (example_env, CallbackQuery (''blood_'' @ bt)),
      (example_env, location_message 23 90)]"

definition example_find_flow_world :: world where
  "example_find_flow_world = run example_user find_flow example_world"

definition example_second_flow_world :: world where
  "example_second_flow_world = run example_user (emergency_flow ''O+'' @ find_flow) example_world"

definition example_bad_dms :: string where
  "example_bad_dms =
     ''1'' @ [deg] @ ''2'' @ [apos] @ ''3.4.5'' @ [dquote] @ ''N 6'' @ [deg] @ ''7'' @ [apos]
     @ ''8'' @ [dquote] @ ''E @23.777,90.399''"

subsection \<open>What the scratchpad holds in the states of the registration flow\<close>

definition has_float :: "user_data \<Rightarrow> string \<Rightarrow> bool" where
  "has_float ud key = (case ud key of Some (PyFloat x) \<Rightarrow> True | _ \<Rightarrow> False)"

definition has_str :: "user_data \<Rightarrow> string \<Rightarrow> bool" where
  "has_str ud key = (case ud key of Some (PyStr s) \<Rightarrow> True | _ \<Rightarrow> False)"

text \<open>
  In \<open>BLOOD_TYPE\<close> the coordinates are captured, in \<open>CONTACT\<close> the blood type as well, in
  \<open>PROFILE\<close> the contact too; the other states ask for nothing.
\<close>

definition scratchpad_ready :: "state option \<Rightarrow> user_data \<Rightarrow> bool" where
  "scratchpad_ready st ud =
     (case st of
        Some BLOOD_TYPE \<Rightarrow> has_float ud ''latitude'' \<and> has_float ud ''longitude''
      | Some CONTACT \<Rightarrow>
          has_float ud ''latitude'' \<and> has_float ud ''longitude'' \<and> has_str ud ''blood_type''
      | Some PROFILE \<Rightarrow>
          has_float ud ''latitude'' \<and> has_float ud ''longitude'' \<and> has_str ud ''blood_type''
          \<and> has_str ud ''contact''
      | _ \<Rightarrow> True)"

subsection \<open>Texts in degrees, minutes and seconds\<close>

text \<open>
  A decimal numeral: digits, or digits, a dot and digits. The text of a coordinate pair:
  degrees, minutes and seconds of the latitude with \<^verbatim>\<open>N\<close> or \<^verbatim>\<open>S\<close>, a space, and the same
  for the longitude with \<^verbatim>\<open>E\<close> or \<^verbatim>\<open>W\<close>.
\<close>

definition is_decimal :: "string \<Rightarrow> bool" where
  "is_decimal s =
     (takeWhile is_digit s \<noteq> []
      \<and> (case dropWhile is_digit s of [] \<Rightarrow> True
          | c # fp \<Rightarrow> c = CHR ''.'' \<and> list_all is_digit fp))"

definition decimal_value :: "string \<Rightarrow> real" where
  "decimal_value s =
     real (nat_of_digits (takeWhile is_digit s))
     + (case dropWhile is_digit s of [] \<Rightarrow> 0
        | c # fp \<Rightarrow> real (nat_of_digits fp) / 10 ^ length fp)"

definition dms_text ::
  "string \<Rightarrow> string \<Rightarrow> string \<Rightarrow> char \<Rightarrow> string \<Rightarrow> string \<Rightarrow> string \<Rightarrow> char \<Rightarrow> string" where
  "dms_text d m s h d' m' s' h' =
     d @ [deg] @ m @ [apos] @ s @ [dquote] @ [h] @ '' ''
     @ d' @ [deg] @ m' @ [apos] @ s' @ [dquote] @ [h']"

definition hemisphere_sign :: "char \<Rightarrow> real" where
  "hemisphere_sign h = (if h = CHR ''S'' \<or> h = CHR ''W'' then - 1 else 1)"

section \<open>The donor matcher\<close>

lemma fetch_nearest_Inr:
  "fetch_nearest e tbl lat lon v limit = Inr rows \<Longrightarrow>
     \<exists>bt. v = PyStr bt \<and> 0 \<le> limit \<and>
       rows = take (nat limit)
         (sort_key (\<lambda>(name, contact, la, lo, distance). distance)
            (map (\<lambda>r. (d_name r, d_contact r, d_latitude r, d_longitude r,
                        geodesic e (d_latitude r, d_longitude r) (lat, lon)))
               (filter (\<lambda>r. d_blood_type r = bt) tbl)))"
  by (cases v) (auto simp: fetch_nearest_def encode_bigint_def split: if_splits sum.splits)

lemma find_nearest_donors_entries:
  assumes "entry \<in> set (find_nearest_donors e tbl lat lon v limit)"
  shows "\<exists>r \<in> set tbl. PyStr (d_blood_type r) = v
           \<and> entry = (d_name r, d_contact r, geodesic e (d_latitude r, d_longitude r) (lat, lon))"
proof (cases "fetch_nearest e tbl lat lon v limit")
  case (Inl x)
  with assms show ?thesis by (simp add: find_nearest_donors_def)
next
  case (Inr rows)
  from fetch_nearest_Inr [OF Inr] obtain bt where v: "v = PyStr bt"
    and rows: "rows = take (nat limit)
         (sort_key (\<lambda>(name, contact, la, lo, distance). distance)
            (map (\<lambda>r. (d_name r, d_contact r, d_latitude r, d_longitude r,
                        geodesic e (d_latitude r, d_longitude r) (lat, lon)))
               (filter (\<lambda>r. d_blood_type r = bt) tbl)))" by blast
  from assms Inr obtain row where row: "row \<in> set rows"
    and entry: "entry = (\<lambda>(name, contact, la, lo, distance). (name, contact, distance)) row"
    by (auto simp: find_nearest_donors_def)
  from row rows have "row \<in> set (map (\<lambda>r. (d_name r, d_contact r, d_latitude r, d_longitude r,
                        geodesic e (d_latitude r, d_longitude r) (lat, lon)))
               (filter (\<lambda>r. d_blood_type r = bt) tbl))"
    using set_take_subset by fastforce
  with entry v show ?thesis by auto
qed

lemma find_nearest_donors_length:
  assumes "0 \<le> limit"
  shows "int (length (find_nearest_donors e tbl lat lon v limit)) \<le> limit"
proof (cases "fetch_nearest e tbl lat lon v limit")
  case (Inl x)
  with assms show ?thesis by (simp add: find_nearest_donors_def)
next
  case (Inr rows)
  from fetch_nearest_Inr [OF Inr] have "length rows \<le> nat limit" by auto
  with Inr assms show ?thesis by (simp add: find_nearest_donors_def)
qed

lemma find_nearest_donors_sorted:
  "sorted (map (\<lambda>(name, contact, distance). distance) (find_nearest_donors e tbl lat lon v limit))"
proof (cases "fetch_nearest e tbl lat lon v limit")
  case (Inl x)
  then show ?thesis by (simp add: find_nearest_donors_def)
next
  case (Inr rows)
  from fetch_nearest_Inr [OF Inr] obtain xs where
    rows: "rows = take (nat limit) (sort_key (\<lambda>(name, contact, la, lo, distance). distance) xs)"
    by blast
  have "map (\<lambda>(name, contact, distance). distance)
          (map (\<lambda>(name, contact, la, lo, distance). (name, contact, distance)) rows)
        = map (\<lambda>(name, contact, la, lo, distance). distance) rows"
    by (simp add: case_prod_beta comp_def)
  also have "\<dots> = take (nat limit)
       (map (\<lambda>(name, contact, la, lo, distance). distance)
          (sort_key (\<lambda>(name, contact, la, lo, distance). distance) xs))"
    by (simp add: rows take_map)
  finally show ?thesis using Inr
    by (simp add: find_nearest_donors_def sorted_wrt_take)
qed

lemma example_nearest:
  "find_nearest_donors example_env example_donors 23 90 (PyStr ''B-'') 2
     = [(''Eve'', ''+8801700000004'', 0), (''Dee'', ''+8801700000003'', 1 / 2)]"
  by (simp add: find_nearest_donors_def fetch_nearest_def example_env_def example_donors_def
      encode_bigint_def)

text \<open>
  Claim C2. For every query point, blood type and limit, \<open>find_nearest_donors\<close> returns
  only entries of donors of the table whose stored blood type equals the requested one,
  each with the distance from the query point to the donor's stored coordinates; it
  returns at most \<open>limit\<close> entries (a limit is a count: for a negative one the query
  fails and the result is empty); and the entries are in non-decreasing order of
  distance. The handler of the find flow calls it with the default limit 5.
\<close>

theorem find_nearest_donors_filtered_bounded_sorted:
  "(\<forall>entry \<in> set (find_nearest_donors e tbl lat lon v limit).
      \<exists>r \<in> set tbl. PyStr (d_blood_type r) = v
         \<and> entry = (d_name r, d_contact r, geodesic e (d_latitude r, d_longitude r) (lat, lon)))
   \<and> (0 \<le> limit \<longrightarrow> int (length (find_nearest_donors e tbl lat lon v limit)) \<le> limit)
   \<and> sorted (map (\<lambda>(name, contact, distance). distance)
        (find_nearest_donors e tbl lat lon v limit))"
  using find_nearest_donors_entries find_nearest_donors_length find_nearest_donors_sorted
  by blast

theorem find_nearest_donors_witness:
  "(0::int) \<le> 2
   \<and> find_nearest_donors example_env example_donors 23 90 (PyStr ''B-'') 2
       = [(''Eve'', ''+8801700000004'', 0), (''Dee'', ''+8801700000003'', 1 / 2)]
   \<and> int (length (find_nearest_donors example_env example_donors 23 90 (PyStr ''B-'') 2)) \<le> 2
   \<and> sorted (map (\<lambda>(name, contact, distance). distance)
        (find_nearest_donors example_env example_donors 23 90 (PyStr ''B-'') 2))"
  using find_nearest_donors_filtered_bounded_sorted
          [of example_env example_donors 23 90 "PyStr ''B-''" 2]
        example_nearest
  by simp

section \<open>The matcher fails soft\<close>

lemma find_nearest_donors_query_fails:
  "fetch_nearest e tbl lat lon v limit = Inl x \<Longrightarrow> find_nearest_donors e tbl lat lon v limit = []"
  by (simp add: find_nearest_donors_def)

lemma find_nearest_donors_store_down:
  "\<not> store_up e \<Longrightarrow> find_nearest_donors e tbl lat lon v limit = []"
  by (simp add: find_nearest_donors_def fetch_nearest_def)

lemma find_nearest_donors_no_match:
  assumes "\<forall>r \<in> set tbl. d_blood_type r \<noteq> bt"
  shows "find_nearest_donors e tbl lat lon (PyStr bt) limit = []"
proof -
  from assms have "filter (\<lambda>r. d_blood_type r = bt) tbl = []"
    by (simp add: filter_empty_conv)
  then show ?thesis
    by (simp add: find_nearest_donors_def fetch_nearest_def split: sum.splits)
qed

lemma resolve_Coordinates_accepted:
  "resolve e m = Inr (Coordinates lat lon) \<Longrightarrow> filter_check (F_or F_LOCATION F_TEXT) m"
  by (auto simp: resolve_def split: option.splits if_splits)

lemma location_find_no_donors:
  assumes "resolve e m = Inr (Coordinates lat lon)"
    and "ud ''blood_type'' = Some v"
    and "find_nearest_donors e tbl lat lon v 5 = []"
  shows "location_find e m ud tbl
           = Inr \<lparr>r_next = END, r_replies = [No_donors], r_data = ud, r_donors = tbl\<rparr>"
  using assms by (simp add: location_find_def getitem_def)

lemma conversation_check_LOCATION_FIND:
  "filter_check (F_or F_LOCATION F_TEXT) m \<Longrightarrow>
     conversation_check botname (Some LOCATION_FIND) (Message m) = Some Cb_location_find"
  by (simp add: conversation_check_def first_accepting_def)

lemma handle_update_no_donors:
  assumes "w_conv w = Some LOCATION_FIND"
    and "resolve e m = Inr (Coordinates lat lon)"
    and "w_data w ''blood_type'' = Some v"
    and "find_nearest_donors e (w_donors w) lat lon v 5 = []"
  shows "handle_update e u (Message m) w = (w\<lparr>w_conv := None\<rparr>, [No_donors], None)"
proof -
  from assms(2) have "filter_check (F_or F_LOCATION F_TEXT) m"
    by (rule resolve_Coordinates_accepted)
  then have "conversation_check (bot_username e) (w_conv w) (Message m) = Some Cb_location_find"
    using assms(1) by (simp add: conversation_check_LOCATION_FIND)
  moreover have "run_callback Cb_location_find e u (Message m) (w_data w) (w_donors w)
      = Inr \<lparr>r_next = END, r_replies = [No_donors], r_data = w_data w, r_donors = w_donors w\<rparr>"
    using assms(2-4) by (simp add: location_find_no_donors)
  ultimately show ?thesis by (simp add: handle_update_def)
qed

text \<open>
  Claim C8. Any failure of the store or of the query inside the matcher gives the empty
  list and no exception: whatever the query raises, and in particular when the store is
  down. The list is empty too when no donor of the table has the requested blood type.
  In the state \<open>LOCATION_FIND\<close>, a message that resolves to coordinates and whose matcher
  call returns the empty list is answered with the one reply \<open>No_donors\<close> (no donors
  found nearby), not with one of the error replies, and the conversation ends.
\<close>

theorem matcher_fails_soft:
  "(fetch_nearest e tbl lat lon v limit = Inl x \<longrightarrow> find_nearest_donors e tbl lat lon v limit = [])
   \<and> (\<not> store_up e \<longrightarrow> find_nearest_donors e tbl lat lon v limit = [])
   \<and> ((\<forall>r \<in> set tbl. d_blood_type r \<noteq> bt)
        \<longrightarrow> find_nearest_donors e tbl lat lon (PyStr bt) limit = [])
   \<and> (w_conv w = Some LOCATION_FIND \<and> resolve e m = Inr (Coordinates la lo)
        \<and> w_data w ''blood_type'' = Some bv
        \<and> find_nearest_donors e (w_donors w) la lo bv 5 = []
        \<longrightarrow> handle_update e u (Message m) w = (w\<lparr>w_conv := None\<rparr>, [No_donors], None))"
proof (intro conjI impI)
  assume "fetch_nearest e tbl lat lon v limit = Inl x"
  then show "find_nearest_donors e tbl lat lon v limit = []"
    by (rule find_nearest_donors_query_fails)
next
  assume "\<not> store_up e"
  then show "find_nearest_donors e tbl lat lon v limit = []"
    by (rule find_nearest_donors_store_down)
next
  assume "\<forall>r \<in> set tbl. d_blood_type r \<noteq> bt"
  then show "find_nearest_donors e tbl lat lon (PyStr bt) limit = []"
    by (rule find_nearest_donors_no_match)
next
  assume "w_conv w = Some LOCATION_FIND \<and> resolve e m = Inr (Coordinates la lo)
        \<and> w_data w ''blood_type'' = Some bv
        \<and> find_nearest_donors e (w_donors w) la lo bv 5 = []"
  then show "handle_update e u (Message m) w = (w\<lparr>w_conv := None\<rparr>, [No_donors], None)"
    using handle_update_no_donors by blast
qed

theorem matcher_fails_soft_witness:
  "fetch_nearest example_env_down example_donors 23 90 (PyStr ''B-'') 5 = Inl StoreError
   \<and> find_nearest_donors example_env_down example_donors 23 90 (PyStr ''B-'') 5 = []
   \<and> find_nearest_donors example_env example_donors 23 90 (PyStr ''AB-'') 5 = []
   \<and> handle_update example_env example_user (location_message 23 90) example_find_world
       = (example_find_world\<lparr>w_conv := None\<rparr>, [No_donors], None)"
proof -
  have down: "\<not> store_up example_env_down"
    by (simp add: example_env_down_def)
  have fails: "fetch_nearest example_env_down example_donors 23 90 (PyStr ''B-'') 5 = Inl StoreError"
    by (simp add: fetch_nearest_def example_env_down_def)
  have none: "\<forall>r \<in> set example_donors. d_blood_type r \<noteq> ''AB-''"
    by (simp add: example_donors_def)
  have res: "resolve example_env \<lparr>msg_text = None, msg_location = Some (23, 90)\<rparr>
               = Inr (Coordinates 23 90)"
    by (simp add: resolve_def)
  note inst = matcher_fails_soft
  from inst [of example_env_down example_donors 23 90 "PyStr ''B-''" 5 StoreError] fails
  have a: "find_nearest_donors example_env_down example_donors 23 90 (PyStr ''B-'') 5 = []"
    by blast
  from inst [of example_env example_donors 23 90 "PyStr ''AB-''" 5 _ "''AB-''"
              example_find_world "\<lparr>msg_text = None, msg_location = Some (23, 90)\<rparr>" 23 90
              "PyStr ''AB-''" example_user] none
  have b: "find_nearest_donors example_env example_donors 23 90 (PyStr ''AB-'') 5 = []"
    by blast
  from inst [of example_env example_donors 23 90 "PyStr ''AB-''" 5 _ "''AB-''"
              example_find_world "\<lparr>msg_text = None, msg_location = Some (23, 90)\<rparr>" 23 90
              "PyStr ''AB-''" example_user] res b
  have c: "handle_update example_env example_user (location_message 23 90) example_find_world
       = (example_find_world\<lparr>w_conv := None\<rparr>, [No_donors], None)"
    by (simp add: example_find_world_def location_message_def)
  from fails a b c show ?thesis by simp
qed

section \<open>The registration commit\<close>












lemma getitem_Inr: "getitem ud k = Inr v \<longleftrightarrow> ud k = Some v"
  by (simp add: getitem_def split: option.splits)

lemma encode_text_Inr: "encode_text_not_null v = Inr s \<longleftrightarrow> v = PyStr s"
  by (cases v) auto

lemma encode_real_Inr: "encode_real_not_null v = Inr x \<longleftrightarrow> v = PyFloat x"
  by (cases v) auto

lemma encode_bigint_Inr: "encode_bigint n = Inr k \<Longrightarrow> k = n"
  by (simp add: encode_bigint_def split: if_splits)

lemma save_donor_Inr:
  assumes "save_donor e u ud v tbl = Inr tbl'"
  shows "\<exists>bt la lo ct ld.
           ud ''blood_type'' = Some (PyStr bt) \<and> ud ''latitude'' = Some (PyFloat la)
         \<and> ud ''longitude'' = Some (PyFloat lo) \<and> ud ''contact'' = Some (PyStr ct)
         \<and> encode_date v = Inr ld \<and> store_up e
         \<and> tbl' = insert_on_conflict_update
                    \<lparr>d_user_id = user_id u, d_name = full_name u, d_blood_type = bt,
                     d_latitude = la, d_longitude = lo, d_contact = ct,
                     d_last_donation = ld\<rparr> tbl"
  using assms unfolding save_donor_def
  by (auto split: if_splits sum.splits
      simp: getitem_Inr encode_text_Inr encode_real_Inr dest!: encode_bigint_Inr)








section \<open>The scratchpad along the registration flow\<close>

text \<open>
  No run of the machine that starts without a conversation reaches \<open>PROFILE\<close> without a blood
  type, coordinates and a contact in the scratchpad.
\<close>

lemma conversation_check_state:
  assumes "conversation_check botname st upd = Some cb"
  shows "cb = Cb_start
       \<or> (cb = Cb_menu_callback \<and> st = Some MENU)
       \<or> (cb = Cb_location \<and> st = Some LOCATION)
       \<or> (cb = Cb_blood_type_callback \<and> st = Some BLOOD_TYPE)
       \<or> (cb = Cb_contact \<and> st = Some CONTACT)
       \<or> (cb = Cb_profile \<and> st = Some PROFILE)
       \<or> (cb = Cb_location_find \<and> st = Some LOCATION_FIND)
       \<or> (cb = Cb_emergency_callback \<and> st = Some EMERGENCY)"
  using assms
  by (cases st; cases "the st"; cases upd)
     (auto simp: conversation_check_def first_accepting_def entry_points_def fallbacks_def
           split: option.splits if_splits)

lemma next_conv_simps:
  "(case Goto s of Goto x \<Rightarrow> Some x | END \<Rightarrow> None) = Some s"
  "(case END of Goto x \<Rightarrow> Some x | END \<Rightarrow> None) = None"
  by simp_all

lemma step_keeps_scratchpad_ready:
  assumes "conversation_check botname st upd = Some cb"
    and "run_callback cb e u upd ud tbl = Inr r"
    and "scratchpad_ready st ud"
  shows "scratchpad_ready (case r_next r of Goto s \<Rightarrow> Some s | END \<Rightarrow> None) (r_data r)"
proof -
  note defs = scratchpad_ready_def has_float_def has_str_def
  from conversation_check_state [OF assms(1)] consider
      "cb = Cb_start" | "cb = Cb_menu_callback"
    | "cb = Cb_location" | "cb = Cb_blood_type_callback" "st = Some BLOOD_TYPE"
    | "cb = Cb_contact" "st = Some CONTACT" | "cb = Cb_profile" "st = Some PROFILE"
    | "cb = Cb_location_find" | "cb = Cb_emergency_callback"
    by blast
  then show ?thesis
  proof cases
    case 1
    with assms(2) show ?thesis
      by (cases upd) (auto simp: start_def defs split: if_splits)
  next
    case 2
    with assms(2) show ?thesis
      by (cases upd)
         (auto simp: menu_callback_def find_blood_def show_profile_def defs split: if_splits)
  next
    case 3
    with assms(2) show ?thesis
      by (cases upd) (auto simp: location_def defs split: sum.splits resolution.splits)
  next
    case 4
    with assms(2,3) show ?thesis
      by (cases upd) (auto simp: blood_type_callback_def defs split: sum.splits)
  next
    case 5
    with assms(2,3) show ?thesis
      by (cases upd) (auto simp: contact_def defs split: option.splits if_splits)
  next
    case 6
    with assms(2,3) show ?thesis
      by (cases upd) (auto simp: profile_def defs split: option.splits sum.splits if_splits)
  next
    case 7
    with assms(2) show ?thesis
      by (cases upd)
         (auto simp: location_find_def Let_def defs split: sum.splits resolution.splits)
  next
    case 8
    with assms(2) show ?thesis
      by (cases upd) (auto simp: emergency_callback_def defs split: sum.splits)
  qed
qed

lemma handle_update_keeps_scratchpad_ready:
  assumes "scratchpad_ready (w_conv w) (w_data w)"
  shows "scratchpad_ready (w_conv (fst (handle_update e u upd w)))
           (w_data (fst (handle_update e u upd w)))"
proof (cases "conversation_check (bot_username e) (w_conv w) upd")
  case None
  with assms show ?thesis by (simp add: handle_update_def)
next
  case (Some cb)
  show ?thesis
  proof (cases "run_callback cb e u upd (w_data w) (w_donors w)")
    case (Inl x)
    with Some assms show ?thesis by (simp add: handle_update_def)
  next
    case (Inr r)
    from step_keeps_scratchpad_ready [OF Some Inr assms] Some Inr
    show ?thesis by (simp add: handle_update_def)
  qed
qed

lemma run_keeps_scratchpad_ready:
  "scratchpad_ready (w_conv w) (w_data w) \<Longrightarrow>
     scratchpad_ready (w_conv (run u steps w)) (w_data (run u steps w))"
proof (induction steps arbitrary: w)
  case Nil
  then show ?case by simp
next
  case (Cons step steps)
  obtain e upd where step: "step = (e, upd)" by (cases step)
  from Cons.prems have "scratchpad_ready (w_conv (fst (handle_update e u upd w)))
           (w_data (fst (handle_update e u upd w)))"
    by (rule handle_update_keeps_scratchpad_ready)
  then show ?case using Cons.IH step by simp
qed

lemma no_conversation_is_ready: "scratchpad_ready None ud"
  by (simp add: scratchpad_ready_def)

lemma profile_state_has_all_fields:
  assumes "w_conv w = None" and "w_conv (run u steps w) = Some PROFILE"
  shows "\<exists>bt la lo ct. w_data (run u steps w) ''blood_type'' = Some (PyStr bt)
           \<and> w_data (run u steps w) ''latitude'' = Some (PyFloat la)
           \<and> w_data (run u steps w) ''longitude'' = Some (PyFloat lo)
           \<and> w_data (run u steps w) ''contact'' = Some (PyStr ct)"
proof -
  from assms(1) have "scratchpad_ready (w_conv w) (w_data w)"
    by (simp add: no_conversation_is_ready)
  then have "scratchpad_ready (w_conv (run u steps w)) (w_data (run u steps w))"
    by (rule run_keeps_scratchpad_ready)
  with assms(2) show ?thesis
    by (auto simp: scratchpad_ready_def has_float_def has_str_def
        split: option.splits pyval.splits)
qed

section \<open>Failures of the geocoder and of the store\<close>

lemma world_eq: "\<lparr>w_conv = w_conv w, w_data = w_data w, w_donors = w_donors w\<rparr> = (w::world)"
  by simp

lemma py_lower_never_nonempty: "py_lower t = ''never'' \<Longrightarrow> t \<noteq> []"
  by (auto simp: py_lower_def)

lemma strptime_ymd_nonempty: "strptime_ymd t = Inr dt \<Longrightarrow> t \<noteq> []"
  by (auto simp: strptime_ymd_def re_match_ymd_def re_year_def)

lemma save_donor_store_down: "\<not> store_up e \<Longrightarrow> save_donor e u ud v tbl = Inl StoreError"
  by (simp add: save_donor_def)

lemma conversation_check_text:
  "t \<noteq> [] \<Longrightarrow> s \<in> {LOCATION, CONTACT, PROFILE, LOCATION_FIND} \<Longrightarrow>
     conversation_check botname (Some s) (text_message t)
       = Some (case s of LOCATION \<Rightarrow> Cb_location | CONTACT \<Rightarrow> Cb_contact
                | PROFILE \<Rightarrow> Cb_profile | _ \<Rightarrow> Cb_location_find)"
  by (auto simp: conversation_check_def first_accepting_def text_message_def)

lemma geocoder_error_keeps_state:
  assumes "w_conv w = Some s" and "s = LOCATION \<or> s = LOCATION_FIND"
    and "parse_dms_coordinate t = Inr None"
    and "extract_coords_from_google_maps_link t = Inr None"
    and "geocode e (t @ '', Bangladesh'') = Geocoder_raises"
    and "t \<noteq> []"
  shows "handle_update e u (text_message t) w = (w, [Location_error], None)"
proof -
  have res: "resolve e \<lparr>msg_text = Some t, msg_location = None\<rparr> = Inr (Unresolved Location_error)"
    using assms(3-6) by (simp add: resolve_def)
  from assms(2) show ?thesis
  proof
    assume s: "s = LOCATION"
    then have "conversation_check (bot_username e) (w_conv w) (text_message t) = Some Cb_location"
      using assms(1,6) by (simp add: conversation_check_text)
    then show ?thesis using res assms(1) s
      by (simp add: handle_update_def text_message_def location_def world_eq)
  next
    assume s: "s = LOCATION_FIND"
    then have "conversation_check (bot_username e) (w_conv w) (text_message t) = Some Cb_location_find"
      using assms(1,6) by (simp add: conversation_check_text)
    then show ?thesis using res assms(1) s
      by (simp add: handle_update_def text_message_def location_find_def world_eq)
  qed
qed

lemma store_error_ends_commit:
  assumes "w_conv w = Some PROFILE" and "\<not> store_up e"
    and "py_lower t = ''never'' \<or> strptime_ymd t = Inr dt"
  shows "handle_update e u (text_message t) w = (w\<lparr>w_conv := None\<rparr>, [Save_error], None)"
proof -
  from assms(3) have t: "t \<noteq> []"
    using py_lower_never_nonempty strptime_ymd_nonempty by blast
  then have "conversation_check (bot_username e) (w_conv w) (text_message t) = Some Cb_profile"
    using assms(1) by (simp add: conversation_check_text)
  moreover have "profile e u \<lparr>msg_text = Some t, msg_location = None\<rparr> (w_data w) (w_donors w)
      = Inr \<lparr>r_next = END, r_replies = [Save_error], r_data = w_data w, r_donors = w_donors w\<rparr>"
    using assms(2,3) by (auto simp: profile_def save_donor_store_down)
  ultimately show ?thesis
    by (simp add: handle_update_def text_message_def)
qed

lemma store_error_ends_profile_lookup:
  assumes "w_conv w = Some MENU" and "\<not> store_up e"
  shows "handle_update e u (CallbackQuery ''profile'') w = (w\<lparr>w_conv := None\<rparr>, [Profile_error], None)"
  using assms
  by (simp add: handle_update_def conversation_check_def first_accepting_def menu_callback_def
      show_profile_def)

lemma store_error_in_matcher:
  assumes "w_conv w = Some LOCATION_FIND" and "\<not> store_up e"
    and "resolve e m = Inr (Coordinates la lo)" and "w_data w ''blood_type'' = Some bv"
  shows "handle_update e u (Message m) w = (w\<lparr>w_conv := None\<rparr>, [No_donors], None)"
  using assms by (simp add: handle_update_no_donors find_nearest_donors_store_down)

text \<open>
  Claim C6, as the code has it. A failure of the geocoder in \<open>LOCATION\<close> or
  \<open>LOCATION_FIND\<close> is recovered in the handler: the user receives the try-again reply
  \<open>Location_error\<close> and the session (state and scratchpad) is unchanged. A failure of the
  store is recovered in the handler too, but the conversation ends: in the registration
  commit the user receives the try-again-later reply \<open>Save_error\<close> and the session
  leaves \<open>PROFILE\<close>; in the profile lookup the user receives \<open>Profile_error\<close>; inside the
  matcher the failure is answered like an empty result, with \<open>No_donors\<close>.
\<close>

theorem upstream_failures_recovered:
  "(w_conv w = Some s \<and> (s = LOCATION \<or> s = LOCATION_FIND) \<and> t \<noteq> []
      \<and> parse_dms_coordinate t = Inr None \<and> extract_coords_from_google_maps_link t = Inr None
      \<and> geocode e (t @ '', Bangladesh'') = Geocoder_raises
      \<longrightarrow> handle_update e u (text_message t) w = (w, [Location_error], None))
   \<and> (w_conv w = Some PROFILE \<and> \<not> store_up e
      \<and> (py_lower t = ''never'' \<or> strptime_ymd t = Inr dt)
      \<longrightarrow> handle_update e u (text_message t) w = (w\<lparr>w_conv := None\<rparr>, [Save_error], None))
   \<and> (w_conv w = Some MENU \<and> \<not> store_up e
      \<longrightarrow> handle_update e u (CallbackQuery ''profile'') w
            = (w\<lparr>w_conv := None\<rparr>, [Profile_error], None))
   \<and> (w_conv w = Some LOCATION_FIND \<and> \<not> store_up e
      \<and> resolve e m = Inr (Coordinates la lo) \<and> w_data w ''blood_type'' = Some bv
      \<longrightarrow> handle_update e u (Message m) w = (w\<lparr>w_conv := None\<rparr>, [No_donors], None))"
proof (intro conjI impI)
  assume "w_conv w = Some s \<and> (s = LOCATION \<or> s = LOCATION_FIND) \<and> t \<noteq> []
      \<and> parse_dms_coordinate t = Inr None \<and> extract_coords_from_google_maps_link t = Inr None
      \<and> geocode e (t @ '', Bangladesh'') = Geocoder_raises"
  then show "handle_update e u (text_message t) w = (w, [Location_error], None)"
    using geocoder_error_keeps_state by blast
next
  assume "w_conv w = Some PROFILE \<and> \<not> store_up e
      \<and> (py_lower t = ''never'' \<or> strptime_ymd t = Inr dt)"
  then show "handle_update e u (text_message t) w = (w\<lparr>w_conv := None\<rparr>, [Save_error], None)"
    using store_error_ends_commit by blast
next
  assume "w_conv w = Some MENU \<and> \<not> store_up e"
  then show "handle_update e u (CallbackQuery ''profile'') w
            = (w\<lparr>w_conv := None\<rparr>, [Profile_error], None)"
    using store_error_ends_profile_lookup by blast
next
  assume "w_conv w = Some LOCATION_FIND \<and> \<not> store_up e
      \<and> resolve e m = Inr (Coordinates la lo) \<and> w_data w ''blood_type'' = Some bv"
  then show "handle_update e u (Message m) w = (w\<lparr>w_conv := None\<rparr>, [No_donors], None)"
    using store_error_in_matcher by blast
qed

theorem upstream_failures_witness:
  "w_conv example_location_world = Some LOCATION
   \<and> geocode example_env_geocoder_raises (''Dhaka'' @ '', Bangladesh'') = Geocoder_raises
   \<and> handle_update example_env_geocoder_raises example_user (text_message ''Dhaka'')
        example_location_world
       = (example_location_world, [Location_error], None)
   \<and> w_conv example_profile_world = Some PROFILE
   \<and> \<not> store_up example_env_down
   \<and> handle_update example_env_down example_user (text_message ''Never'') example_profile_world
       = (example_profile_world\<lparr>w_conv := None\<rparr>, [Save_error], None)"
proof -
  have a: "w_conv example_location_world = Some LOCATION" by code_simp
  have b: "parse_dms_coordinate ''Dhaka'' = Inr None" by code_simp
  have c: "extract_coords_from_google_maps_link ''Dhaka'' = Inr None" by code_simp
  have d: "geocode example_env_geocoder_raises (''Dhaka'' @ '', Bangladesh'') = Geocoder_raises"
    by (simp add: example_env_geocoder_raises_def)
  have f: "w_conv example_profile_world = Some PROFILE" by code_simp
  have g: "\<not> store_up example_env_down" by (simp add: example_env_down_def)
  have h: "py_lower ''Never'' = ''never''" by code_simp
  note inst = upstream_failures_recovered
  from inst [of example_location_world LOCATION "''Dhaka''" example_env_geocoder_raises
               example_user] a b c d
  have "handle_update example_env_geocoder_raises example_user (text_message ''Dhaka'')
        example_location_world = (example_location_world, [Location_error], None)"
    by simp
  moreover from inst [of example_profile_world _ "''Never''" example_env_down example_user] f g h
  have "handle_update example_env_down example_user (text_message ''Never'') example_profile_world
       = (example_profile_world\<lparr>w_conv := None\<rparr>, [Save_error], None)"
    by simp
  ultimately show ?thesis using a d f g by simp
qed

text \<open>
  Against claim C6 as stated: with the store down, the answer \<^verbatim>\<open>Never\<close> in the state
  \<open>PROFILE\<close> is answered with \<open>Save_error\<close> and the conversation ends; the session does
  not stay in \<open>PROFILE\<close>.
\<close>

theorem store_error_leaves_profile_state:
  "w_conv example_profile_world = Some PROFILE
   \<and> \<not> store_up example_env_down
   \<and> fst (snd (handle_update example_env_down example_user (text_message ''Never'')
        example_profile_world)) = [Save_error]
   \<and> w_conv (fst (handle_update example_env_down example_user (text_message ''Never'')
        example_profile_world)) = None
   \<and> w_conv (fst (handle_update example_env_down example_user (text_message ''Never'')
        example_profile_world)) \<noteq> w_conv example_profile_world"
  by code_simp

section \<open>Blood-type selection\<close>

















section \<open>The find flow and the sought blood type\<close>

text \<open>
  Claim C1 says that the handler of \<open>LOCATION_FIND\<close> reads the sought blood type only
  after a blood-type capture of the same flow. The code at its failing input: after
  \<^verbatim>\<open>/start\<close> and the menu choice \<^verbatim>\<open>find\<close> the session is in \<open>LOCATION_FIND\<close> with no blood
  type in the scratchpad, and a location makes line 279 raise \<^verbatim>\<open>KeyError\<close>: nothing is
  sent and the state stays. When an earlier emergency flow has left \<^verbatim>\<open>O+\<close> in the
  scratchpad, the find flow, which captures nothing, runs the matcher with that value.
\<close>

theorem find_flow_reads_uncaptured_blood_type:
  "w_conv example_find_flow_world = Some LOCATION_FIND
   \<and> w_data example_find_flow_world ''blood_type'' = None
   \<and> snd (handle_update example_env example_user (location_message 23 90)
        example_find_flow_world) = ([], Some (KeyError ''blood_type''))
   \<and> w_conv (fst (handle_update example_env example_user (location_message 23 90)
        example_find_flow_world)) = Some LOCATION_FIND
   \<and> w_conv (run example_user (emergency_flow ''O+'') example_world) = None
   \<and> w_conv example_second_flow_world = Some LOCATION_FIND
   \<and> w_data example_second_flow_world ''blood_type'' = Some (PyStr ''O+'')
   \<and> snd (handle_update example_env example_user (location_message 23 90)
        example_second_flow_world)
       = ([Found_donors [(''Bob'', ''+8801700000002'', 0)]], None)"
  by code_simp

section \<open>The location resolver\<close>

lemma re_plus_digits:
  "re_plus is_digit s = Some (g, r) \<Longrightarrow> g \<noteq> [] \<and> list_all is_digit g"
  by (auto simp: re_plus_def Let_def list_all_iff split: if_splits dest: set_takeWhileD)

lemma py_float_unsigned_decimal:
  assumes "ip \<noteq> []" "list_all is_digit ip" "list_all is_digit fp"
  shows "py_float_unsigned (ip @ ''.'' @ fp)
           = Inr (real (nat_of_digits ip) + real (nat_of_digits fp) / 10 ^ length fp)"
proof -
  have nd: "\<not> is_digit (CHR ''.'')" by (simp add: is_digit_def)
  from assms(2) have a: "takeWhile is_digit (ip @ CHR ''.'' # fp) = ip"
    using nd by (simp add: takeWhile_append2 list_all_iff)
  from assms(2) have b: "dropWhile is_digit (ip @ CHR ''.'' # fp) = CHR ''.'' # fp"
    using nd by (simp add: dropWhile_append2 list_all_iff)
  show ?thesis using assms(1,3) by (simp add: py_float_unsigned_def a b)
qed

lemma unsigned_decimal_groups:
  assumes "Option.bind (re_plus is_digit s1) (\<lambda>(ip, s2).
             Option.bind (re_char (CHR ''.'') s2) (\<lambda>s3.
               Option.bind (re_plus is_digit s3) (\<lambda>(fp, s4). Some (sg @ ip @ ''.'' @ fp, s4))))
           = Some (g, r)"
  shows "\<exists>ip fp. g = sg @ ip @ ''.'' @ fp \<and> ip \<noteq> [] \<and> list_all is_digit ip \<and> list_all is_digit fp"
proof -
  from assms obtain ip s2 where ip: "re_plus is_digit s1 = Some (ip, s2)"
    and 1: "Option.bind (re_char (CHR ''.'') s2) (\<lambda>s3.
               Option.bind (re_plus is_digit s3) (\<lambda>(fp, s4). Some (sg @ ip @ ''.'' @ fp, s4)))
           = Some (g, r)"
    by (cases "re_plus is_digit s1") auto
  from 1 obtain s3 where 2: "Option.bind (re_plus is_digit s3) (\<lambda>(fp, s4). Some (sg @ ip @ ''.'' @ fp, s4))
           = Some (g, r)"
    by (cases "re_char (CHR ''.'') s2") auto
  from 2 obtain fp s4 where fp: "re_plus is_digit s3 = Some (fp, s4)"
    and g: "g = sg @ ip @ ''.'' @ fp"
    by (cases "re_plus is_digit s3") auto
  from re_plus_digits [OF ip] re_plus_digits [OF fp] g show ?thesis by blast
qed

lemma re_signed_decimal_float:
  assumes "re_signed_decimal s = Some (g, r)"
  shows "\<exists>x. py_float g = Inr x"
proof -
  have nm: "\<not> is_digit (CHR ''-'')" by (simp add: is_digit_def)
  show ?thesis
  proof (cases "\<exists>t. s = CHR ''-'' # t")
    case True
    then obtain t where s: "s = CHR ''-'' # t" by blast
    from assms have "\<exists>ip fp. g = ''-'' @ ip @ ''.'' @ fp \<and> ip \<noteq> [] \<and> list_all is_digit ip
        \<and> list_all is_digit fp"
      unfolding re_signed_decimal_def s by (intro unsigned_decimal_groups) simp
    then obtain ip fp where g: "g = ''-'' @ ip @ ''.'' @ fp" and d: "ip \<noteq> []" "list_all is_digit ip"
        "list_all is_digit fp" by blast
    from py_float_unsigned_decimal [OF d] g show ?thesis by (simp add: py_float_def)
  next
    case False
    then have "(case s of [] \<Rightarrow> ([], s) | c # r \<Rightarrow> if c = CHR ''-'' then ([c], r) else ([], s)) = ([], s)"
      by (cases s) auto
    with assms have "\<exists>ip fp. g = [] @ ip @ ''.'' @ fp \<and> ip \<noteq> [] \<and> list_all is_digit ip
        \<and> list_all is_digit fp"
      unfolding re_signed_decimal_def by (intro unsigned_decimal_groups) simp
    then obtain ip fp where g: "g = ip @ ''.'' @ fp" and d: "ip \<noteq> []" "list_all is_digit ip"
        "list_all is_digit fp" by auto
    from d nm have "hd ip \<noteq> CHR ''-''" by (cases ip) auto
    with d(1) have "py_float (ip @ ''.'' @ fp) = py_float_unsigned (ip @ ''.'' @ fp)"
      by (cases ip) (auto simp: py_float_def)
    with py_float_unsigned_decimal [OF d] g show ?thesis by simp
  qed
qed

lemma re_match_pair_float:
  assumes "re_match_pair lit s = Some (g1, g2)"
  shows "(\<exists>x. py_float g1 = Inr x) \<and> (\<exists>y. py_float g2 = Inr y)"
proof -
  from assms obtain s1 where 1: "Option.bind (re_signed_decimal s1) (\<lambda>(g1', s2).
        Option.bind (re_char (CHR '','') s2) (\<lambda>s3.
          Option.bind (re_signed_decimal s3) (\<lambda>(g2', s4). Some (g1', g2')))) = Some (g1, g2)"
    unfolding re_match_pair_def by (cases "re_lit lit s") auto
  from 1 obtain a s2 where a: "re_signed_decimal s1 = Some (a, s2)"
    and 2: "Option.bind (re_char (CHR '','') s2) (\<lambda>s3.
          Option.bind (re_signed_decimal s3) (\<lambda>(g2', s4). Some (a, g2'))) = Some (g1, g2)"
    by (cases "re_signed_decimal s1") auto
  from 2 obtain s3 where 3: "Option.bind (re_signed_decimal s3) (\<lambda>(g2', s4). Some (a, g2'))
        = Some (g1, g2)"
    by (cases "re_char (CHR '','') s2") auto
  from 3 obtain b s4 where b: "re_signed_decimal s3 = Some (b, s4)" and g: "g1 = a" "g2 = b"
    by (cases "re_signed_decimal s3") auto
  from re_signed_decimal_float [OF a] re_signed_decimal_float [OF b] g show ?thesis by simp
qed

lemma re_search_pair_float:
  "re_search_pair lit s = Some (g1, g2) \<Longrightarrow>
     (\<exists>x. py_float g1 = Inr x) \<and> (\<exists>y. py_float g2 = Inr y)"
proof (induction s)
  case Nil
  then show ?case using re_match_pair_float by simp
next
  case (Cons c cs)
  then show ?case
    using re_match_pair_float [of lit "c # cs" g1 g2]
    by (cases "re_match_pair lit (c # cs)") auto
qed

lemma search_patterns_never_raises: "search_patterns ps link \<noteq> Inl x"
proof (induction ps)
  case Nil
  then show ?case by simp
next
  case (Cons p ps)
  show ?case
  proof (cases "re_search_pair p link")
    case None
    with Cons show ?thesis by simp
  next
    case (Some g)
    obtain g1 g2 where g: "g = (g1, g2)" by (cases g)
    from re_search_pair_float [of p link g1 g2] Some g
    obtain x y where "py_float g1 = Inr x" "py_float g2 = Inr y" by auto
    with Some g show ?thesis by simp
  qed
qed

lemma link_extraction_never_raises: "extract_coords_from_google_maps_link link \<noteq> Inl x"
  unfolding extract_coords_from_google_maps_link_def by (rule search_patterns_never_raises)

lemma py_float_raises: "py_float s = Inl x \<Longrightarrow> x = ValueError"
  by (auto simp: py_float_def py_float_unsigned_def Let_def split: list.splits if_splits sum.splits)

lemma parse_dms_coordinate_raises: "parse_dms_coordinate t = Inl x \<Longrightarrow> x = ValueError"
  by (auto simp: parse_dms_coordinate_def dms_degrees_def
      split: option.splits sum.splits prod.splits dest: py_float_raises)

lemma resolve_raises_only_in_dms_parse:
  assumes "resolve e m = Inl x"
  shows "\<exists>t. msg_location m = None \<and> msg_text m = Some t \<and> re_match_dms t \<noteq> None
           \<and> parse_dms_coordinate t = Inl ValueError \<and> x = ValueError"
proof -
  from assms obtain t where t: "msg_location m = None" "msg_text m = Some t" "t \<noteq> []"
    by (auto simp: resolve_def split: option.splits if_splits)
  from assms t link_extraction_never_raises [of t] have "parse_dms_coordinate t = Inl x"
    by (auto simp: resolve_def split: sum.splits option.splits geo_result.splits)
  moreover from this have "x = ValueError" by (rule parse_dms_coordinate_raises)
  moreover from calculation have "re_match_dms t \<noteq> None"
    by (cases "re_match_dms t") (simp_all add: parse_dms_coordinate_def)
  ultimately show ?thesis using t by simp
qed

lemma unresolved_text_keeps_state:
  assumes "w_conv w = Some s" and "s = LOCATION \<or> s = LOCATION_FIND" and "t \<noteq> []"
    and "parse_dms_coordinate t = Inr None"
    and "extract_coords_from_google_maps_link t = Inr None"
    and "geocode e (t @ '', Bangladesh'') = Not_found \<or> geocode e (t @ '', Bangladesh'') = Geocoder_raises"
  shows "handle_update e u (text_message t) w
           = (w, [if geocode e (t @ '', Bangladesh'') = Not_found then Invalid_location
                  else Location_error], None)"
proof -
  have res: "resolve e \<lparr>msg_text = Some t, msg_location = None\<rparr>
      = Inr (Unresolved (if geocode e (t @ '', Bangladesh'') = Not_found then Invalid_location
                  else Location_error))"
    using assms(3-6) by (auto simp: resolve_def)
  from assms(2) show ?thesis
  proof
    assume s: "s = LOCATION"
    then have "conversation_check (bot_username e) (w_conv w) (text_message t) = Some Cb_location"
      using assms(1,3) by (simp add: conversation_check_text)
    then show ?thesis using res assms(1) s
      by (simp add: handle_update_def text_message_def location_def world_eq)
  next
    assume s: "s = LOCATION_FIND"
    then have "conversation_check (bot_username e) (w_conv w) (text_message t) = Some Cb_location_find"
      using assms(1,3) by (simp add: conversation_check_text)
    then show ?thesis using res assms(1) s
      by (simp add: handle_update_def text_message_def location_find_def world_eq)
  qed
qed

lemma resolve_first_success:
  assumes "msg_location m = None" and "msg_text m = Some t" and "t \<noteq> []"
  shows "parse_dms_coordinate t = Inr (Some (la, lo)) \<Longrightarrow> resolve e m = Inr (Coordinates la lo)"
    and "parse_dms_coordinate t = Inr None \<Longrightarrow>
           extract_coords_from_google_maps_link t = Inr (Some (la, lo)) \<Longrightarrow>
           resolve e m = Inr (Coordinates la lo)"
    and "parse_dms_coordinate t = Inr None \<Longrightarrow>
           extract_coords_from_google_maps_link t = Inr None \<Longrightarrow>
           geocode e (t @ '', Bangladesh'') = Found la lo \<Longrightarrow>
           resolve e m = Inr (Coordinates la lo)"
  using assms by (simp_all add: resolve_def)

lemma resolve_native_location:
  "msg_location m = Some (la, lo) \<Longrightarrow> resolve e m = Inr (Coordinates la lo)"
  by (simp add: resolve_def)

text \<open>
  The DMS parse on the texts it is meant for, in the exact arithmetic of the embedding:
  the pattern captures the six magnitudes and the two hemisphere letters, whatever
  follows the text, and the result is the sign times degrees plus minutes over 60 plus
  seconds over 3600.
\<close>

lemma re_plus_run:
  "g \<noteq> [] \<Longrightarrow> list_all p g \<Longrightarrow> \<not> p c \<Longrightarrow> re_plus p (g @ c # rest) = Some (g, c # rest)"
  by (simp add: re_plus_def list_all_iff takeWhile_append2 dropWhile_append2)

lemma all_digits_run:
  assumes "list_all is_digit d"
  shows "takeWhile is_digit d = d" and "dropWhile is_digit d = []"
  using assms by (simp_all add: list_all_iff)

lemma is_decimal_chars:
  assumes "is_decimal s"
  shows "s \<noteq> [] \<and> list_all is_digit_or_dot s"
proof -
  have a: "list_all is_digit_or_dot (takeWhile is_digit s)"
    by (auto simp: list_all_iff is_digit_or_dot_def dest: set_takeWhileD)
  have b: "list_all is_digit_or_dot (dropWhile is_digit s)"
  proof (cases "dropWhile is_digit s")
    case Nil
    show ?thesis unfolding Nil by simp
  next
    case (Cons c fp)
    from assms have "c = CHR ''.''" "list_all is_digit fp"
      unfolding is_decimal_def Cons by simp_all
    then show ?thesis unfolding Cons by (simp add: list_all_iff is_digit_or_dot_def)
  qed
  from a b have "list_all is_digit_or_dot (takeWhile is_digit s @ dropWhile is_digit s)"
    by (simp only: list_all_append)
  then have "list_all is_digit_or_dot s" by simp
  moreover from assms have "s \<noteq> []" by (auto simp: is_decimal_def)
  ultimately show ?thesis by simp
qed

lemma py_float_unsigned_decimal_value:
  assumes "is_decimal s"
  shows "py_float_unsigned s = Inr (decimal_value s)"
proof (cases "dropWhile is_digit s")
  case Nil
  from assms have "takeWhile is_digit s \<noteq> []" unfolding is_decimal_def by simp
  then show ?thesis
    unfolding py_float_unsigned_def decimal_value_def Nil by simp
next
  case (Cons c fp)
  from assms have "c = CHR ''.''" "list_all is_digit fp" "takeWhile is_digit s \<noteq> []"
    unfolding is_decimal_def Cons by simp_all
  then show ?thesis
    unfolding py_float_unsigned_def decimal_value_def Cons by simp
qed

lemma py_float_decimal:
  assumes "is_decimal s"
  shows "py_float s = Inr (decimal_value s)"
proof -
  from assms have "takeWhile is_digit s \<noteq> []" by (simp add: is_decimal_def)
  then obtain c r where s: "s = c # r" and c: "is_digit c"
    by (cases s) (auto split: if_splits)
  from c have "c \<noteq> CHR ''-''" by (auto simp: is_digit_def)
  with s have "py_float s = py_float_unsigned s" by (simp add: py_float_def)
  with py_float_unsigned_decimal_value [OF assms] show ?thesis by simp
qed

lemma digits_are_decimal:
  assumes "d \<noteq> []" and "list_all is_digit d"
  shows "is_decimal d" and "decimal_value d = real (nat_of_digits d)"
  unfolding is_decimal_def decimal_value_def all_digits_run [OF assms(2)]
  using assms(1) by simp_all

lemma dms_degrees_value:
  assumes "d \<noteq> []" "list_all is_digit d" "m \<noteq> []" "list_all is_digit m" "is_decimal s"
  shows "dms_degrees d m s
           = Inr (real (nat_of_digits d) + real (nat_of_digits m) / 60 + decimal_value s / 3600)"
proof -
  from digits_are_decimal [OF assms(1,2)] have "py_float d = Inr (real (nat_of_digits d))"
    using py_float_decimal by simp
  moreover from digits_are_decimal [OF assms(3,4)] have "py_float m = Inr (real (nat_of_digits m))"
    using py_float_decimal by simp
  moreover from assms(5) have "py_float s = Inr (decimal_value s)" by (rule py_float_decimal)
  ultimately show ?thesis by (simp add: dms_degrees_def)
qed

lemma not_digit_marks:
  "\<not> is_digit deg" "\<not> is_digit apos" "\<not> is_digit_or_dot dquote" "\<not> is_space deg"
  by (simp_all add: is_digit_def is_digit_or_dot_def is_space_def deg_def apos_def dquote_def)

lemma digit_no_space: "is_digit c \<Longrightarrow> \<not> is_space c"
  by (auto simp: is_digit_def is_space_def)

lemma re_match_dms_text:
  assumes "d \<noteq> []" "list_all is_digit d" "m \<noteq> []" "list_all is_digit m" "is_decimal s"
    and "d' \<noteq> []" "list_all is_digit d'" "m' \<noteq> []" "list_all is_digit m'" "is_decimal s'"
    and "h = CHR ''N'' \<or> h = CHR ''S''" and "h' = CHR ''E'' \<or> h' = CHR ''W''"
  shows "re_match_dms (dms_text d m s h d' m' s' h' @ rest) = Some (d, m, s, h, d', m', s', h')"
proof -
  from is_decimal_chars [OF assms(5)] have s: "s \<noteq> []" "list_all is_digit_or_dot s" by simp_all
  from is_decimal_chars [OF assms(10)] have s': "s' \<noteq> []" "list_all is_digit_or_dot s'" by simp_all
  from assms(6,7) have "\<not> is_space (hd d')"
    by (cases d') (auto simp: digit_no_space)
  with assms(6) have sp: "\<And>r. dropWhile is_space (d' @ r) = d' @ r"
    by (cases d') auto
  have blank: "is_space (CHR '' '')" by (simp add: is_space_def)
  have h: "re_class ''NS'' (h # r) = Some (h, r)" for r
    using assms(11) by (auto simp: re_class_def)
  have h': "re_class ''EW'' (h' # r) = Some (h', r)" for r
    using assms(12) by (auto simp: re_class_def)
  show ?thesis
    unfolding re_match_dms_def dms_text_def
    by (simp add: re_plus_run assms s s' not_digit_marks re_char_def sp blank h h')
qed

lemma dms_conversion_exact:
  assumes "d \<noteq> []" "list_all is_digit d" "m \<noteq> []" "list_all is_digit m" "is_decimal s"
    and "d' \<noteq> []" "list_all is_digit d'" "m' \<noteq> []" "list_all is_digit m'" "is_decimal s'"
    and "h = CHR ''N'' \<or> h = CHR ''S''" and "h' = CHR ''E'' \<or> h' = CHR ''W''"
  shows "parse_dms_coordinate (dms_text d m s h d' m' s' h' @ rest)
           = Inr (Some
               (hemisphere_sign h
                  * (real (nat_of_digits d) + real (nat_of_digits m) / 60 + decimal_value s / 3600),
                hemisphere_sign h'
                  * (real (nat_of_digits d') + real (nat_of_digits m') / 60
                     + decimal_value s' / 3600)))"
proof -
  note g = re_match_dms_text [OF assms, of rest]
  note lat = dms_degrees_value [OF assms(1-5)]
  note lon = dms_degrees_value [OF assms(6-10)]
  from assms(11,12) show ?thesis
    by (auto simp: parse_dms_coordinate_def g lat lon hemisphere_sign_def)
qed

lemma dms_example:
  "parse_dms_coordinate (dms_text ''23'' ''46'' ''12.0'' (CHR ''N'') ''90'' ''23'' ''55.0'' (CHR ''E''))
     = Inr (Some (23.77, 90 + 23 / 60 + 55 / 3600))"
  by code_simp

text \<open>
  Claim C3 says that the resolver goes on to the map link and the geocoder whenever the
  DMS parse did not succeed. The code at its failing input: the pattern of line 52
  matches the text with the seconds \<^verbatim>\<open>3.4.5\<close>, \<^verbatim>\<open>float\<close> raises \<^verbatim>\<open>ValueError\<close> at line 59,
  and the exception leaves the handler: the map link in the same text, which the second
  strategy would have read, is never tried, nothing is sent, and the state stays.
\<close>

theorem malformed_dms_seconds_raise:
  "re_match_dms example_bad_dms = Some (''1'', ''2'', ''3.4.5'', CHR ''N'', ''6'', ''7'', ''8'', CHR ''E'')
   \<and> parse_dms_coordinate example_bad_dms = Inl ValueError
   \<and> extract_coords_from_google_maps_link example_bad_dms = Inr (Some (23.777, 90.399))
   \<and> w_conv example_location_world = Some LOCATION
   \<and> snd (handle_update example_env example_user (text_message example_bad_dms)
        example_location_world) = ([], Some ValueError)
   \<and> w_conv (fst (handle_update example_env example_user (text_message example_bad_dms)
        example_location_world)) = Some LOCATION"
  by code_simp

section \<open>Restart\<close>

lemma py_lower_start: "py_lower ''start'' = ''start''"
  by code_simp

lemma bot_command_start: "bot_command botname ''/start'' = Some ''start''"
  by (simp add: bot_command_def is_command_char_def)

lemma start_accepted: "check_update botname (CommandHandler ''start'' cb) (text_message ''/start'')"
  by (simp add: text_message_def bot_command_start py_lower_start)

lemma start_restarts_from_callback_states:
  assumes "w_conv w = None \<or> w_conv w = Some MENU \<or> w_conv w = Some BLOOD_TYPE
             \<or> w_conv w = Some EMERGENCY \<or> w_conv w = Some FIND"
    and "store_up e"
  shows "handle_update e u (text_message ''/start'') w
           = (w\<lparr>w_conv := Some MENU\<rparr>,
              [Welcome (user_id u \<in> set (map d_user_id (w_donors w)))], None)"
proof -
  have "conversation_check (bot_username e) (w_conv w) (text_message ''/start'') = Some Cb_start"
    using assms(1) start_accepted [of "bot_username e" Cb_start]
    by (auto simp: conversation_check_def first_accepting_def entry_points_def fallbacks_def)
       (simp_all add: text_message_def)
  then show ?thesis using assms(2)
    by (simp add: handle_update_def text_message_def start_def)
qed

lemma start_text_resolve:
  "resolve e \<lparr>msg_text = Some ''/start'', msg_location = None\<rparr>
     = (case geocode e ''/start, Bangladesh'' of
          Found la lo \<Rightarrow> Inr (Coordinates la lo)
        | Not_found \<Rightarrow> Inr (Unresolved Invalid_location)
        | Geocoder_raises \<Rightarrow> Inr (Unresolved Location_error))"
proof -
  have a: "parse_dms_coordinate ''/start'' = Inr None" by code_simp
  have b: "extract_coords_from_google_maps_link ''/start'' = Inr None" by code_simp
  show ?thesis by (simp add: resolve_def a b)
qed

lemma start_text_is_no_contact: "\<not> re_match_contact ''/start''"
  by code_simp

lemma start_text_is_no_date:
  "py_lower ''/start'' \<noteq> ''never'' \<and> strptime_ymd ''/start'' = Inl ValueError"
  by code_simp

lemma start_does_not_restart_where_text_is_read:
  assumes "w_conv w = Some s" and "s \<in> {LOCATION, CONTACT, PROFILE, LOCATION_FIND}"
  shows "w_conv (fst (handle_update e u (text_message ''/start'') w)) \<noteq> Some MENU"
proof -
  have cb: "conversation_check (bot_username e) (Some s) (text_message ''/start'')
       = Some (case s of LOCATION \<Rightarrow> Cb_location | CONTACT \<Rightarrow> Cb_contact
                | PROFILE \<Rightarrow> Cb_profile | _ \<Rightarrow> Cb_location_find)"
    using assms(2) by (intro conversation_check_text) simp_all
  from assms(2) consider "s = LOCATION" | "s = CONTACT" | "s = PROFILE" | "s = LOCATION_FIND"
    by auto
  then show ?thesis
  proof cases
    case 1
    with cb assms(1) show ?thesis
      by (simp add: handle_update_def text_message_def location_def start_text_resolve
            split: geo_result.splits)
  next
    case 2
    with cb assms(1) show ?thesis
      by (simp add: handle_update_def text_message_def contact_def start_text_is_no_contact)
  next
    case 3
    with cb assms(1) show ?thesis
      by (simp add: handle_update_def text_message_def profile_def start_text_is_no_date)
  next
    case 4
    with cb assms(1) show ?thesis
      by (simp add: handle_update_def text_message_def location_find_def start_text_resolve
            getitem_def Let_def split: geo_result.splits option.splits)
  qed
qed

text \<open>
  Claim C5 says that \<^verbatim>\<open>/start\<close> leads to \<open>MENU\<close> from every state. The code at its failing
  inputs: in \<open>CONTACT\<close>, \<open>PROFILE\<close>, \<open>LOCATION\<close> and \<open>LOCATION_FIND\<close> the handler of the state
  accepts every text, so \<^verbatim>\<open>/start\<close> is read as a contact, a date or a place, is answered
  as an invalid one, and the state stays; the fallback is reached only in the states
  whose handlers take callback queries, as in \<open>BLOOD_TYPE\<close>.
\<close>

theorem start_is_plain_text_where_text_is_read:
  "snd (handle_update example_env example_user (text_message ''/start'')
        (example_world\<lparr>w_conv := Some CONTACT\<rparr>)) = ([Invalid_contact], None)
   \<and> w_conv (fst (handle_update example_env example_user (text_message ''/start'')
        (example_world\<lparr>w_conv := Some CONTACT\<rparr>))) = Some CONTACT
   \<and> snd (handle_update example_env example_user (text_message ''/start'')
        (example_world\<lparr>w_conv := Some PROFILE\<rparr>)) = ([Invalid_date], None)
   \<and> w_conv (fst (handle_update example_env example_user (text_message ''/start'')
        (example_world\<lparr>w_conv := Some PROFILE\<rparr>))) = Some PROFILE
   \<and> snd (handle_update example_env example_user (text_message ''/start'')
        (example_world\<lparr>w_conv := Some LOCATION\<rparr>)) = ([Invalid_location], None)
   \<and> w_conv (fst (handle_update example_env example_user (text_message ''/start'')
        (example_world\<lparr>w_conv := Some LOCATION\<rparr>))) = Some LOCATION
   \<and> snd (handle_update example_env example_user (text_message ''/start'')
        (example_world\<lparr>w_conv := Some LOCATION_FIND\<rparr>)) = ([Invalid_location], None)
   \<and> w_conv (fst (handle_update example_env example_user (text_message ''/start'')
        (example_world\<lparr>w_conv := Some LOCATION_FIND\<rparr>))) = Some LOCATION_FIND
   \<and> snd (handle_update example_env example_user (text_message ''/start'')
        (example_world\<lparr>w_conv := Some BLOOD_TYPE\<rparr>)) = ([Welcome False], None)
   \<and> w_conv (fst (handle_update example_env example_user (text_message ''/start'')
        (example_world\<lparr>w_conv := Some BLOOD_TYPE\<rparr>))) = Some MENU"
  by code_simp

section \<open>The answer about the last donation\<close>

lemma save_donor_str: "save_donor e u ud (PyStr s) tbl \<noteq> Inr tbl'"
  using save_donor_Inr [of e u ud "PyStr s" tbl tbl'] by auto

lemma conversation_check_PROFILE:
  "t \<noteq> [] \<Longrightarrow> conversation_check botname (Some PROFILE) (text_message t) = Some Cb_profile"
  using conversation_check_text [of t PROFILE botname] by simp

lemma date_answer_never_saved:
  assumes "w_conv w = Some PROFILE" and "py_lower t \<noteq> ''never''" and "strptime_ymd t = Inr dt"
  shows "handle_update e u (text_message t) w = (w\<lparr>w_conv := None\<rparr>, [Save_error], None)"
proof -
  from assms(3) have "t \<noteq> []" by (rule strptime_ymd_nonempty)
  then have "conversation_check (bot_username e) (w_conv w) (text_message t) = Some Cb_profile"
    using assms(1) by (simp add: conversation_check_PROFILE)
  moreover have "profile e u \<lparr>msg_text = Some t, msg_location = None\<rparr> (w_data w) (w_donors w)
      = Inr \<lparr>r_next = END, r_replies = [Save_error], r_data = w_data w, r_donors = w_donors w\<rparr>"
    using assms(2,3) save_donor_str [of e u "w_data w" "isoformat dt" "w_donors w"]
    by (auto simp: profile_def split: sum.splits)
  ultimately show ?thesis
    by (simp add: handle_update_def text_message_def)
qed

lemma unparseable_answer_stays:
  assumes "w_conv w = Some PROFILE" and "py_lower t \<noteq> ''never''" and "strptime_ymd t = Inl x"
    and "t \<noteq> []"
  shows "handle_update e u (text_message t) w = (w, [Invalid_date], None)"
proof -
  have "conversation_check (bot_username e) (w_conv w) (text_message t) = Some Cb_profile"
    using assms(1,4) by (simp add: conversation_check_PROFILE)
  moreover have "profile e u \<lparr>msg_text = Some t, msg_location = None\<rparr> (w_data w) (w_donors w)
      = Inr \<lparr>r_next = Goto PROFILE, r_replies = [Invalid_date], r_data = w_data w,
              r_donors = w_donors w\<rparr>"
    using assms(2,3) by (simp add: profile_def)
  ultimately show ?thesis using assms(1)
    by (simp add: handle_update_def text_message_def world_eq)
qed

lemma save_donor_ok:
  assumes "store_up e" and "- (2 ^ 63) \<le> user_id u" and "user_id u < 2 ^ 63"
    and "ud ''blood_type'' = Some (PyStr bt)" and "ud ''latitude'' = Some (PyFloat la)"
    and "ud ''longitude'' = Some (PyFloat lo)" and "ud ''contact'' = Some (PyStr ct)"
  shows "save_donor e u ud PyNone tbl
           = Inr (insert_on_conflict_update
                    \<lparr>d_user_id = user_id u, d_name = full_name u, d_blood_type = bt,
                     d_latitude = la, d_longitude = lo, d_contact = ct,
                     d_last_donation = None\<rparr> tbl)"
  using assms by (simp add: save_donor_def getitem_def encode_bigint_def)

lemma never_answer_commits:
  assumes "w_conv w = Some PROFILE" and "py_lower t = ''never''"
    and "store_up e" and "- (2 ^ 63) \<le> user_id u" and "user_id u < 2 ^ 63"
    and "w_data w ''blood_type'' = Some (PyStr bt)" and "w_data w ''latitude'' = Some (PyFloat la)"
    and "w_data w ''longitude'' = Some (PyFloat lo)" and "w_data w ''contact'' = Some (PyStr ct)"
  shows "handle_update e u (text_message t) w
           = (w\<lparr>w_conv := None,
                 w_donors := insert_on_conflict_update
                    \<lparr>d_user_id = user_id u, d_name = full_name u, d_blood_type = bt,
                     d_latitude = la, d_longitude = lo, d_contact = ct,
                     d_last_donation = None\<rparr> (w_donors w)\<rparr>,
              [Registered], None)"
proof -
  from assms(2) have "t \<noteq> []" by (rule py_lower_never_nonempty)
  then have "conversation_check (bot_username e) (w_conv w) (text_message t) = Some Cb_profile"
    using assms(1) by (simp add: conversation_check_PROFILE)
  moreover note save_donor_ok [OF assms(3-9), of "w_donors w"]
  ultimately show ?thesis using assms(2)
    by (simp add: handle_update_def text_message_def profile_def)
qed

lemma never_answer_commits_after_any_run:
  assumes "w_conv w = None" and "w_conv (run u steps w) = Some PROFILE"
    and "py_lower t = ''never''" and "store_up e"
    and "- (2 ^ 63) \<le> user_id u" and "user_id u < 2 ^ 63"
  shows "fst (snd (handle_update e u (text_message t) (run u steps w))) = [Registered]
       \<and> w_conv (fst (handle_update e u (text_message t) (run u steps w))) = None"
proof -
  from profile_state_has_all_fields [OF assms(1,2)] obtain bt la lo ct where
    "w_data (run u steps w) ''blood_type'' = Some (PyStr bt)"
    "w_data (run u steps w) ''latitude'' = Some (PyFloat la)"
    "w_data (run u steps w) ''longitude'' = Some (PyFloat lo)"
    "w_data (run u steps w) ''contact'' = Some (PyStr ct)"
    by blast
  from never_answer_commits [OF assms(2,3,4,5,6) this] show ?thesis by simp
qed

text \<open>
  Claim C9 says that an answer that parses as a date is recorded and committed. The code
  at its failing input: \<^verbatim>\<open>2023-05-01\<close> parses, the handler hands the \<^verbatim>\<open>str\<close> of
  \<^verbatim>\<open>isoformat()\<close> to the store for the \<^verbatim>\<open>DATE\<close> column, the call raises, and the user
  receives \<open>Save_error\<close>: the conversation ends and the table is as it was.
\<close>

theorem date_answer_is_not_saved:
  "strptime_ymd ''2023-05-01'' = Inr (2023, 5, 1)
   \<and> w_conv example_profile_world = Some PROFILE
   \<and> store_up example_env
   \<and> snd (handle_update example_env example_user (text_message ''2023-05-01'')
        example_profile_world) = ([Save_error], None)
   \<and> w_conv (fst (handle_update example_env example_user (text_message ''2023-05-01'')
        example_profile_world)) = None
   \<and> w_donors (fst (handle_update example_env example_user (text_message ''2023-05-01'')
        example_profile_world)) = example_donors"
  by code_simp

end
